theory Spec2Isabelle
  imports Main
begin

section \<open>Memory Match service worker (sw.js): an embedding of its event handlers\<close>

text \<open>
  The worker is a set of event listeners over three host facilities: the Cache Storage of
  the origin (\<open>caches\<close>), the network (\<open>fetch\<close>) and the notification and client
  interfaces. The listeners are modelled as functions from the event and the cache storage
  to a record of what the handler leaves behind: the value its promise settles to, the
  cache storage after the operations it awaited, the cache writes it started without
  awaiting them, and the host calls it made, in order.

  Strings are byte lists; the Hebrew texts of the source are written as their UTF-8 bytes.
\<close>

subsection \<open>Requests, responses, promises\<close>

record request =
  "method" :: string
  url :: string

record response =
  status :: nat
  statusText :: string
  headers :: "(string \<times> string) list"
  body :: string

text \<open>\<open>new Request(u)\<close>: a request made from a URL alone is a GET.\<close>

definition GET :: "string \<Rightarrow> request" where
  "GET u = \<lparr>method = ''GET'', url = u\<rparr>"

datatype error = NetworkError | TypeError | SyntaxError | InvalidStateError

text \<open>What a promise settles to: a value, or a rejection that nobody caught.\<close>

datatype 'a promise = Fulfilled 'a | Rejected error

text \<open>The network: \<open>fetch(request)\<close> resolves to a response of any status, or throws.\<close>

type_synonym network = "request \<Rightarrow> error + response"

subsection \<open>The host's Cache Storage\<close>

text \<open>
  A cache is a list of entries; the storage is the list of named caches in creation
  order, which is the order \<open>caches.keys()\<close> reports. The worker only ever passes GET
  requests to a cache, and requests carry no headers here, so an entry is found by the
  URL of its request, and the Cache API compares URLs without their fragment:
  \<open>index.html#top\<close> finds the entry of \<open>index.html\<close>. \<open>caches.open\<close> creates an empty
  cache when the name is new, \<open>caches.delete\<close> removes a cache, \<open>cache.match\<close> finds
  the entry of a request, \<open>cache.put\<close> replaces it.
\<close>

definition cache_key :: "request \<Rightarrow> string" where
  "cache_key rq = takeWhile (\<lambda>c. c \<noteq> CHR ''#'') (url rq)"

type_synonym cache = "(string \<times> response) list"
type_synonym cache_storage = "(string \<times> cache) list"

definition caches_keys :: "cache_storage \<Rightarrow> string list" where
  "caches_keys st = map fst st"

definition caches_open :: "string \<Rightarrow> cache_storage \<Rightarrow> cache_storage" where
  "caches_open name st = (if name \<in> set (caches_keys st) then st else st @ [(name, [])])"

definition caches_delete :: "string \<Rightarrow> cache_storage \<Rightarrow> cache_storage" where
  "caches_delete name st = filter (\<lambda>p. fst p \<noteq> name) st"

definition cache_of :: "string \<Rightarrow> cache_storage \<Rightarrow> cache" where
  "cache_of name st = (case map_of st name of Some c \<Rightarrow> c | None \<Rightarrow> [])"

definition cache_match :: "cache \<Rightarrow> request \<Rightarrow> response option" where
  "cache_match c rq = map_of c (cache_key rq)"

definition cache_put :: "cache \<Rightarrow> request \<Rightarrow> response \<Rightarrow> cache" where
  "cache_put c rq rs = filter (\<lambda>p. fst p \<noteq> cache_key rq) c @ [(cache_key rq, rs)]"

text \<open>A write through the handle of the cache called \<open>name\<close>.\<close>

definition store_put :: "string \<Rightarrow> request \<Rightarrow> response \<Rightarrow> cache_storage \<Rightarrow> cache_storage" where
  "store_put name rq rs st =
     map (\<lambda>p. if fst p = name then (fst p, cache_put (snd p) rq rs) else p) st"

text \<open>
  What an observer finds in the partition \<open>name\<close> for a request: nothing when the
  partition does not exist or holds no entry for it.
\<close>

definition partition_match :: "string \<Rightarrow> cache_storage \<Rightarrow> request \<Rightarrow> response option" where
  "partition_match name st rq =
     (case map_of st name of None \<Rightarrow> None | Some c \<Rightarrow> cache_match c rq)"

text \<open>
  The Cache API refuses to store some responses. A response whose \<open>Vary\<close> header (the
  name in any case) lists \<open>*\<close> is refused by \<open>put\<close> and by \<open>addAll\<close>, and so is one
  of status 206; \<open>put\<close> also refuses a request that is not a GET over http or https;
  \<open>addAll\<close> also refuses a response whose status is outside 200..299. The promise of
  the refused operation rejects with a \<open>TypeError\<close> and nothing is written.
\<close>

definition ascii_lower :: "char \<Rightarrow> char" where
  "ascii_lower c =
     (case map_of (zip ''ABCDEFGHIJKLMNOPQRSTUVWXYZ'' ''abcdefghijklmnopqrstuvwxyz'') c of
        Some l \<Rightarrow> l
      | None \<Rightarrow> c)"

fun split_commas :: "string \<Rightarrow> string list" where
  "split_commas [] = [[]]"
| "split_commas (c # cs) =
     (if c = CHR '','' then [] # split_commas cs
      else (case split_commas cs of w # ws \<Rightarrow> (c # w) # ws | [] \<Rightarrow> [[c]]))"

definition trim :: "string \<Rightarrow> string" where
  "trim s = rev (dropWhile (\<lambda>c. c = CHR '' '' \<or> c = CHR 0x09)
              (rev (dropWhile (\<lambda>c. c = CHR '' '' \<or> c = CHR 0x09) s)))"

definition vary_star :: "response \<Rightarrow> bool" where
  "vary_star rs =
     list_ex (\<lambda>h. map ascii_lower (fst h) = ''vary''
                  \<and> list_ex (\<lambda>v. trim v = ''*'') (split_commas (snd h)))
       (headers rs)"

definition put_accepts :: "request \<Rightarrow> response \<Rightarrow> bool" where
  "put_accepts rq rs =
     (method rq = ''GET''
      \<and> (takeWhile (\<lambda>c. c \<noteq> CHR '':'') (url rq) = ''http''
           \<or> takeWhile (\<lambda>c. c \<noteq> CHR '':'') (url rq) = ''https'')
      \<and> status rs \<noteq> 206 \<and> \<not> vary_star rs)"

definition addAll_ok :: "response \<Rightarrow> bool" where
  "addAll_ok rs =
     (200 \<le> status rs \<and> status rs \<le> 299 \<and> status rs \<noteq> 206 \<and> \<not> vary_star rs)"

fun fetch_all :: "network \<Rightarrow> request list \<Rightarrow> error + (request \<times> response) list" where
  "fetch_all net [] = Inr []"
| "fetch_all net (rq # rqs) =
     (case net rq of
        Inl e \<Rightarrow> Inl e
      | Inr rs \<Rightarrow>
          if \<not> addAll_ok rs then Inl TypeError
          else (case fetch_all net rqs of
                  Inl e \<Rightarrow> Inl e
                | Inr done \<Rightarrow> Inr ((rq, rs) # done)))"

fun put_all :: "string \<Rightarrow> (request \<times> response) list \<Rightarrow> cache_storage \<Rightarrow> cache_storage" where
  "put_all name [] st = st"
| "put_all name ((rq, rs) # rest) st = put_all name rest (store_put name rq rs st)"

text \<open>
  The asset paths all begin with \<open>./\<close>; the host resolves such a path against the
  location of the worker script: the location without its query and fragment, up to its
  last slash, followed by the path without the \<open>./\<close>.
\<close>

definition directory_of :: "string \<Rightarrow> string" where
  "directory_of location =
     rev (dropWhile (\<lambda>c. c \<noteq> CHR ''/'')
            (rev (takeWhile (\<lambda>c. c \<noteq> CHR ''?'' \<and> c \<noteq> CHR ''#'') location)))"

definition resolve :: "string \<Rightarrow> string \<Rightarrow> string" where
  "resolve location u = directory_of location @ drop 2 u"

text \<open>
  \<open>cache.addAll(urls)\<close>: every URL is resolved and fetched; the promise rejects, and
  nothing is written, when one fetch throws or is answered with a response the cache
  refuses, and also when two of the requests have the same URL; otherwise every response
  is put under its request.
\<close>

definition cache_addAll ::
  "network \<Rightarrow> string \<Rightarrow> string \<Rightarrow> string list \<Rightarrow> cache_storage
     \<Rightarrow> unit promise \<times> cache_storage" where
  "cache_addAll net location name urls st =
     (case fetch_all net (map (\<lambda>u. GET (resolve location u)) urls) of
        Inl e \<Rightarrow> (Rejected e, st)
      | Inr fetched \<Rightarrow>
          if \<not> distinct (map (\<lambda>p. cache_key (fst p)) fetched)
          then (Rejected InvalidStateError, st)
          else (Fulfilled (), put_all name fetched st))"

subsection \<open>Host calls and handler results\<close>

record notification_action =
  action :: string
  title :: string

record notification_options =
  body_text :: string
  icon :: string
  badge :: string
  vibrate :: "nat list"
  data :: "string option"
  actions :: "notification_action list"

datatype host_call =
    SkipWaiting
  | ClientsClaim
  | ShowNotification string notification_options
  | NotificationClose
  | OpenWindow string

record 'a handled =
  settled :: "'a promise"
  store :: cache_storage
  detached :: "(string \<times> request \<times> response) list"
  calls :: "host_call list"

text \<open>
  The storage once the writes that were started without \<open>await\<close> have settled: a write
  the cache refuses leaves the storage as it is, and its rejection is seen by nobody.
\<close>

definition settle :: "'a handled \<Rightarrow> cache_storage" where
  "settle h =
     fold (\<lambda>w s. if put_accepts (fst (snd w)) (snd (snd w))
                  then store_put (fst w) (fst (snd w)) (snd (snd w)) s else s)
       (detached h) (store h)"

subsection \<open>Constants of the worker\<close>

definition CACHE_NAME :: string where
  "CACHE_NAME = ''memory-match-v2.3.0''"

definition RUNTIME_CACHE :: string where
  "RUNTIME_CACHE = ''memory-match-runtime''"

definition STATIC_ASSETS :: "string list" where
  "STATIC_ASSETS = [''./'', ''./index.html'', ''./manifest.json'', ''./logo.png'']"

subsection \<open>install\<close>

definition install_listener ::
  "network \<Rightarrow> string \<Rightarrow> cache_storage \<Rightarrow> unit handled" where
  "install_listener net location st =
     (let st1 = caches_open CACHE_NAME st in
      case cache_addAll net location CACHE_NAME STATIC_ASSETS st1 of
        (Rejected e, st2) \<Rightarrow>
          \<lparr>settled = Rejected e, store = st2, detached = [], calls = []\<rparr>
      | (Fulfilled u, st2) \<Rightarrow>
          \<lparr>settled = Fulfilled (), store = st2, detached = [], calls = [SkipWaiting]\<rparr>)"

subsection \<open>activate\<close>

definition activate_listener :: "cache_storage \<Rightarrow> unit handled" where
  "activate_listener st =
     (let cacheNames = caches_keys st;
          st1 = fold (\<lambda>cacheName s.
                        if cacheName \<noteq> CACHE_NAME \<and> cacheName \<noteq> RUNTIME_CACHE
                        then caches_delete cacheName s else s) cacheNames st
      in \<lparr>settled = Fulfilled (), store = st1, detached = [], calls = [ClientsClaim]\<rparr>)"

subsection \<open>fetch\<close>

text \<open>\<open>new URL(u).protocol\<close> of a serialised absolute URL: the scheme and its colon.\<close>

definition URL_protocol :: "string \<Rightarrow> string" where
  "URL_protocol u = takeWhile (\<lambda>c. c \<noteq> CHR '':'') u @ '':''"

definition startsWith :: "string \<Rightarrow> string \<Rightarrow> bool" where
  "startsWith s p = (take (length p) s = p)"

text \<open>\<open>JSON.stringify\<close> of an object whose values are strings without control characters.\<close>

definition JSON_quote :: "string \<Rightarrow> string" where
  "JSON_quote s =
     [CHR 0x22] @ concat (map (\<lambda>c. if c = CHR 0x22 \<or> c = CHR 0x5C then [CHR 0x5C, c] else [c]) s)
       @ [CHR 0x22]"

fun JSON_members :: "(string \<times> string) list \<Rightarrow> string" where
  "JSON_members [] = []"
| "JSON_members [(k, v)] = JSON_quote k @ '':'' @ JSON_quote v"
| "JSON_members ((k, v) # kvs) = JSON_quote k @ '':'' @ JSON_quote v @ '','' @ JSON_members kvs"

definition JSON_stringify :: "(string \<times> string) list \<Rightarrow> string" where
  "JSON_stringify obj = ''{'' @ JSON_members obj @ ''}''"

definition OFFLINE_MESSAGE :: string where
  "OFFLINE_MESSAGE =
    [CHR 0xD7, CHR 0x94, CHR 0xD7, CHR 0x90, CHR 0xD7, CHR 0xA4, CHR 0xD7, CHR 0x9C,
     CHR 0xD7, CHR 0x99, CHR 0xD7, CHR 0xA7, CHR 0xD7, CHR 0xA6, CHR 0xD7, CHR 0x99,
     CHR 0xD7, CHR 0x94, CHR 0x20, CHR 0xD7, CHR 0x96, CHR 0xD7, CHR 0x9E, CHR 0xD7,
     CHR 0x99, CHR 0xD7, CHR 0xA0, CHR 0xD7, CHR 0x94, CHR 0x20, CHR 0xD7, CHR 0x91,
     CHR 0xD7, CHR 0x9E, CHR 0xD7, CHR 0xA6, CHR 0xD7, CHR 0x91, CHR 0x20, CHR 0xD7,
     CHR 0x9C, CHR 0xD7, CHR 0x90, CHR 0x20, CHR 0xD7, CHR 0x9E, CHR 0xD7, CHR 0xA7,
     CHR 0xD7, CHR 0x95, CHR 0xD7, CHR 0x95, CHR 0xD7, CHR 0x9F, CHR 0x2C, CHR 0x20,
     CHR 0xD7, CHR 0x90, CHR 0xD7, CHR 0x9A, CHR 0x20, CHR 0xD7, CHR 0x94, CHR 0xD7,
     CHR 0x9E, CHR 0xD7, CHR 0xA9, CHR 0xD7, CHR 0x90, CHR 0xD7, CHR 0x91, CHR 0x20,
     CHR 0xD7, CHR 0x94, CHR 0xD7, CHR 0x9E, CHR 0xD7, CHR 0x91, CHR 0xD7, CHR 0x95,
     CHR 0xD7, CHR 0xA7, CHR 0xD7, CHR 0xA9, CHR 0x20, CHR 0xD7, CHR 0x9C, CHR 0xD7,
     CHR 0x90, CHR 0x20, CHR 0xD7, CHR 0xA0, CHR 0xD7, CHR 0x9E, CHR 0xD7, CHR 0xA6,
     CHR 0xD7, CHR 0x90, CHR 0x20, CHR 0xD7, CHR 0x91, CHR 0xD7, CHR 0x9E, CHR 0xD7,
     CHR 0x98, CHR 0xD7, CHR 0x9E, CHR 0xD7, CHR 0x95, CHR 0xD7, CHR 0x9F]"

definition offline_response :: response where
  "offline_response =
     \<lparr>status = 503,
      statusText = ''Service Unavailable'',
      headers = [(''Content-Type'', ''application/json'')],
      body = JSON_stringify [(''error'', ''Offline and resource not cached''),
                             (''message'', OFFLINE_MESSAGE)]\<rparr>"

text \<open>
  The strategy. A fetch that resolves always yields a response object, so the test
  \<open>networkResponse && networkResponse.status === 200\<close> is the test on the status; the
  clone that is put has the fields of the response. The put is not awaited: it is
  recorded as detached. The \<open>catch\<close> covers the fetch.
\<close>

definition networkFirstStrategy :: "network \<Rightarrow> cache_storage \<Rightarrow> request \<Rightarrow> response handled" where
  "networkFirstStrategy net st rq =
     (let st1 = caches_open RUNTIME_CACHE st in
      case net rq of
        Inr networkResponse \<Rightarrow>
          \<lparr>settled = Fulfilled networkResponse, store = st1,
           detached = (if status networkResponse = 200
                       then [(RUNTIME_CACHE, rq, networkResponse)] else []),
           calls = []\<rparr>
      | Inl e \<Rightarrow>
          (case cache_match (cache_of RUNTIME_CACHE st1) rq of
             Some cachedResponse \<Rightarrow>
               \<lparr>settled = Fulfilled cachedResponse, store = st1, detached = [], calls = []\<rparr>
           | None \<Rightarrow>
               (let st2 = caches_open CACHE_NAME st1 in
                case cache_match (cache_of CACHE_NAME st2) rq of
                  Some staticResponse \<Rightarrow>
                    \<lparr>settled = Fulfilled staticResponse, store = st2, detached = [], calls = []\<rparr>
                | None \<Rightarrow>
                    \<lparr>settled = Fulfilled offline_response, store = st2, detached = [],
                     calls = []\<rparr>)))"

text \<open>
  The listener either returns without calling \<open>respondWith\<close>, and the host handles the
  request as if there were no worker, or answers with the strategy's promise.
\<close>

datatype fetch_outcome = PassThrough | RespondWith "response handled"

definition fetch_listener :: "network \<Rightarrow> cache_storage \<Rightarrow> request \<Rightarrow> fetch_outcome" where
  "fetch_listener net st rq =
     (if method rq \<noteq> ''GET'' then PassThrough
      else if \<not> startsWith (URL_protocol (url rq)) ''http'' then PassThrough
      else RespondWith (networkFirstStrategy net st rq))"

subsection \<open>message\<close>

text \<open>
  \<open>event.data\<close> may be missing, and an object that is there may have no \<open>type\<close>.
\<close>

record message_data =
  type :: "string option"

definition message_listener :: "cache_storage \<Rightarrow> message_data option \<Rightarrow> unit handled" where
  "message_listener st event_data =
     (let skip = (case event_data of Some d \<Rightarrow> type d = Some ''SKIP_WAITING'' | None \<Rightarrow> False);
          clear = (case event_data of Some d \<Rightarrow> type d = Some ''CLEAR_CACHE'' | None \<Rightarrow> False);
          st1 = (if clear then fold caches_delete (caches_keys st) st else st)
      in \<lparr>settled = Fulfilled (), store = st1, detached = [],
          calls = (if skip then [SkipWaiting] else [])\<rparr>)"

subsection \<open>push and notificationclick\<close>

text \<open>
  A push event may carry no payload. When it carries one, \<open>event.data.json()\<close> throws a
  \<open>SyntaxError\<close> if the text is not JSON, and yields \<open>null\<close> for the JSON text
  \<open>null\<close>, of which no property can be read; any other JSON value is read through the
  four fields the handler looks at, each a string or undefined.
  \<open>a || d\<close> on such a field takes \<open>d\<close> when the field is undefined or the empty string.
\<close>

record push_payload =
  data_title :: "string option"
  data_body :: "string option"
  data_icon :: "string option"
  data_url :: "string option"

datatype push_message_data = NotJSON | JSONNull | JSONValue push_payload

definition js_truthy :: "string option \<Rightarrow> bool" where
  "js_truthy a = (case a of None \<Rightarrow> False | Some s \<Rightarrow> s \<noteq> [])"

definition js_or :: "string option \<Rightarrow> string \<Rightarrow> string" where
  "js_or a d = (case a of None \<Rightarrow> d | Some s \<Rightarrow> if s = [] then d else s)"

definition DEFAULT_BODY :: string where
  "DEFAULT_BODY =
    [CHR 0xD7, CHR 0x99, CHR 0xD7, CHR 0xA9, CHR 0x20, CHR 0xD7, CHR 0x9C, CHR 0xD7,
     CHR 0x9A, CHR 0x20, CHR 0xD7, CHR 0x9E, CHR 0xD7, CHR 0xA9, CHR 0xD7, CHR 0x97,
     CHR 0xD7, CHR 0xA7, CHR 0x20, CHR 0xD7, CHR 0x9C, CHR 0xD7, CHR 0x90, CHR 0x20,
     CHR 0xD7, CHR 0x92, CHR 0xD7, CHR 0x9E, CHR 0xD7, CHR 0x95, CHR 0xD7, CHR 0xA8,
     CHR 0x21]"

definition OPEN_TITLE :: string where
  "OPEN_TITLE =
    [CHR 0xD7, CHR 0xA4, CHR 0xD7, CHR 0xAA, CHR 0xD7, CHR 0x97, CHR 0x20, CHR 0xD7,
     CHR 0x9E, CHR 0xD7, CHR 0xA9, CHR 0xD7, CHR 0x97, CHR 0xD7, CHR 0xA7]"

definition CLOSE_TITLE :: string where
  "CLOSE_TITLE =
    [CHR 0xD7, CHR 0xA1, CHR 0xD7, CHR 0x92, CHR 0xD7, CHR 0x95, CHR 0xD7, CHR 0xA8]"

definition push_listener :: "push_message_data option \<Rightarrow> error + host_call list" where
  "push_listener event_data =
     (case (case event_data of
              Some NotJSON \<Rightarrow> Inl SyntaxError
            | Some JSONNull \<Rightarrow> Inr None
            | Some (JSONValue json) \<Rightarrow> Inr (Some json)
            | None \<Rightarrow> Inr (Some \<lparr>data_title = None, data_body = None, data_icon = None,
                                   data_url = None\<rparr>)) of
        Inl e \<Rightarrow> Inl e
      | Inr None \<Rightarrow> Inl TypeError
      | Inr (Some d) \<Rightarrow>
          Inr [ShowNotification (js_or (data_title d) ''Memory Match'')
                 \<lparr>body_text = js_or (data_body d) DEFAULT_BODY,
                  icon = js_or (data_icon d) ''./icon-192.png'',
                  badge = ''./icon-192.png'',
                  vibrate = [200, 100, 200],
                  data = Some (js_or (data_url d) ''./''),
                  actions = [\<lparr>action = ''open'', title = OPEN_TITLE\<rparr>,
                             \<lparr>action = ''close'', title = CLOSE_TITLE\<rparr>]\<rparr>])"

text \<open>
  A click carries the id of the action clicked (undefined or empty when the notification
  itself was clicked) and the notification, of which the handler reads \<open>data\<close>.
\<close>

record notificationclick_event =
  event_action :: "string option"
  notification :: notification_options

definition notificationclick_listener :: "notificationclick_event \<Rightarrow> host_call list" where
  "notificationclick_listener event =
     NotificationClose #
     (if event_action event = Some ''open'' \<or> \<not> js_truthy (event_action event)
      then [OpenWindow (js_or (data (notification event)) ''./'')]
      else [])"

subsection \<open>Notions the properties are stated with\<close>

text \<open>The partitions that are not the runtime partition: the static ones, of any release.\<close>

definition static_partitions :: "cache_storage \<Rightarrow> string list" where
  "static_partitions st = filter (\<lambda>n. n \<noteq> RUNTIME_CACHE) (caches_keys st)"

text \<open>The URLs of the listed assets, for a worker served from \<open>location\<close>.\<close>

definition asset_urls :: "string \<Rightarrow> string set" where
  "asset_urls location = resolve location ` set STATIC_ASSETS"

text \<open>
  What a push event carries for a field of the payload: nothing when there is no payload,
  when the field is undefined, or when it is the empty string.
\<close>

definition carried ::
  "(push_payload \<Rightarrow> string option) \<Rightarrow> push_message_data option \<Rightarrow> string option" where
  "carried field event_data =
     (case event_data of
        Some (JSONValue d) \<Rightarrow>
          (case field d of None \<Rightarrow> None | Some s \<Rightarrow> if s = [] then None else Some s)
      | _ \<Rightarrow> None)"

text \<open>
  The events that reach the worker once it is installed, and the storage they leave: a
  request answered by a network, with the write it started settled; an activation; a
  message.
\<close>

datatype event = Fetch network request | Activate | Message "message_data option"




subsection \<open>Concrete networks, stores and requests\<close>

text \<open>
  The inputs on which the theorems below are exercised: a server that answers every
  request with status 200 and the URL as body, one that answers 404, a network that is
  down, and the location of a worker served from \<open>https://example.com/sw.js\<close>.
\<close>

definition page :: "string \<Rightarrow> response" where
  "page b = \<lparr>status = 200, statusText = ''OK'', headers = [], body = b\<rparr>"

definition online :: network where
  "online rq = Inr (page (url rq))"

definition not_found :: network where
  "not_found rq = Inr \<lparr>status = 404, statusText = ''Not Found'', headers = [], body = []\<rparr>"

text \<open>A server whose answers vary on everything, and one that answers 203.\<close>

definition negotiated :: network where
  "negotiated rq =
     Inr \<lparr>status = 200, statusText = ''OK'', headers = [(''Vary'', ''*'')], body = url rq\<rparr>"


definition offline :: network where
  "offline rq = Inl NetworkError"

definition at_example_com :: string where
  "at_example_com = ''https://example.com/sw.js''"

definition index_html :: string where
  "index_html = ''https://example.com/index.html''"

text \<open>A store in which both partitions hold \<open>index.html\<close>, with different bodies.\<close>

definition both_cached :: cache_storage where
  "both_cached =
     [(CACHE_NAME, [(index_html, page ''installed'')]),
      (RUNTIME_CACHE, [(index_html, page ''revisited'')])]"

text \<open>A store in which only the static partition holds it.\<close>

definition static_cached :: cache_storage where
  "static_cached = [(CACHE_NAME, [(index_html, page ''installed'')]), (RUNTIME_CACHE, [])]"

text \<open>
  A store in which the current release is installed beside an older one, and one in
  which the partition of the current release already holds a file that is not an asset.
\<close>

definition upgraded :: cache_storage where
  "upgraded =
     [(''memory-match-v2.2.0'', [(index_html, page ''old'')]),
      (RUNTIME_CACHE, [(index_html, page ''revisited'')]),
      (CACHE_NAME, [(index_html, page ''installed'')])]"

definition leftover :: cache_storage where
  "leftover = [(CACHE_NAME, [(''https://example.com/old.js'', page ''old'')])]"





definition resume_push :: push_payload where
  "resume_push = \<lparr>data_title = Some ''Your turn'', data_body = None, data_icon = Some [],
                   data_url = Some ''./?resume=1''\<rparr>"

definition CLEAR_CACHE :: "message_data option" where
  "CLEAR_CACHE = Some \<lparr>type = Some ''CLEAR_CACHE''\<rparr>"





section \<open>Lemmas\<close>

subsection \<open>The cache storage operations\<close>

lemma fold_caches_delete:
  "fold caches_delete ns st = filter (\<lambda>p. fst p \<notin> set ns) st"
proof (induction ns arbitrary: st)
  case Nil
  show ?case by simp
next
  case (Cons n ns)
  have "fold caches_delete (n # ns) st = fold caches_delete ns (caches_delete n st)"
    by simp
  also have "\<dots> = filter (\<lambda>p. fst p \<notin> set ns) (caches_delete n st)"
    by (rule Cons.IH)
  also have "\<dots> = filter (\<lambda>p. fst p \<notin> set (n # ns)) st"
    by (auto simp: caches_delete_def intro: filter_cong)
  finally show ?case .
qed

lemma fold_delete_stale:
  "fold (\<lambda>n s. if P n then caches_delete n s else s) ns st
     = filter (\<lambda>p. \<not> (fst p \<in> set ns \<and> P (fst p))) st"
proof (induction ns arbitrary: st)
  case Nil
  show ?case by simp
next
  case (Cons n ns)
  let ?step = "\<lambda>n s. if P n then caches_delete n s else s"
  have "fold ?step (n # ns) st = fold ?step ns (?step n st)"
    by simp
  also have "\<dots> = filter (\<lambda>p. \<not> (fst p \<in> set ns \<and> P (fst p))) (?step n st)"
    by (rule Cons.IH)
  also have "\<dots> = filter (\<lambda>p. \<not> (fst p \<in> set (n # ns) \<and> P (fst p))) st"
    by (auto simp: caches_delete_def intro: filter_cong)
  finally show ?case .
qed

lemma map_of_caches_open:
  "map_of (caches_open n st) m
     = (if m = n \<and> n \<notin> set (caches_keys st) then Some [] else map_of st m)"
proof (cases "n \<in> set (caches_keys st)")
  case True
  then show ?thesis by (simp add: caches_open_def)
next
  case False
  then have none: "map_of st n = None"
    by (simp add: caches_keys_def map_of_eq_None_iff)
  show ?thesis
    using False none by (simp add: caches_open_def map_add_def split: option.splits)
qed

lemma partition_match_caches_open:
  "partition_match m (caches_open n st) rq = partition_match m st rq"
proof (cases "m = n \<and> n \<notin> set (caches_keys st)")
  case True
  then have "map_of st m = None"
    by (simp add: caches_keys_def map_of_eq_None_iff)
  with True show ?thesis
    by (simp add: partition_match_def map_of_caches_open cache_match_def)
next
  case False
  then show ?thesis
    by (auto simp add: partition_match_def map_of_caches_open)
qed

lemma cache_match_cache_of:
  "cache_match (cache_of n st) rq = partition_match n st rq"
  by (simp add: cache_of_def partition_match_def cache_match_def split: option.splits)

subsection \<open>Interception and the strategy\<close>

lemma intercepted_iff:
  "fetch_listener net st rq = RespondWith h \<longleftrightarrow>
     method rq = ''GET'' \<and> startsWith (URL_protocol (url rq)) ''http''
       \<and> h = networkFirstStrategy net st rq"
  by (auto simp: fetch_listener_def)

lemma strategy_network_failure:
  assumes "net rq = Inl e"
  shows "settled (networkFirstStrategy net st rq)
           = Fulfilled (case partition_match RUNTIME_CACHE st rq of
                          Some cached \<Rightarrow> cached
                        | None \<Rightarrow> (case partition_match CACHE_NAME st rq of
                                     Some static \<Rightarrow> static
                                   | None \<Rightarrow> offline_response))"
  using assms
  by (simp add: networkFirstStrategy_def Let_def cache_match_cache_of
        partition_match_caches_open split: option.splits)

lemma index_html_intercepted:
  "fetch_listener net st (GET index_html)
     = RespondWith (networkFirstStrategy net st (GET index_html))"
  by (simp add: fetch_listener_def GET_def index_html_def URL_protocol_def startsWith_def)

lemma map_of_cache_put:
  "map_of (cache_put c rq rs) u = (if u = cache_key rq then Some rs else map_of c u)"
proof -
  have "map_of (filter (\<lambda>p. fst p \<noteq> k) c) u = (if u = k then None else map_of c u)" for k
    by (induction c) auto
  then show ?thesis
    by (auto simp: cache_put_def map_add_def split: option.splits)
qed

lemma map_of_store_put:
  "map_of (store_put n rq rs st) m
     = (if m = n then map_option (\<lambda>c. cache_put c rq rs) (map_of st m) else map_of st m)"
  by (induction st) (auto simp: store_put_def)

lemma partition_match_store_put:
  "partition_match m (store_put n rq rs st) q
     = (if m = n \<and> n \<in> set (caches_keys st) \<and> cache_key q = cache_key rq then Some rs
        else partition_match m st q)"
proof (cases "map_of st m")
  case None
  then have "m \<notin> set (caches_keys st)"
    by (simp add: caches_keys_def map_of_eq_None_iff)
  with None show ?thesis
    by (auto simp: partition_match_def map_of_store_put)
next
  case (Some c)
  then have "m \<in> set (caches_keys st)"
    by (metis caches_keys_def map_of_eq_None_iff option.distinct(1) set_map)
  with Some show ?thesis
    by (auto simp: partition_match_def map_of_store_put cache_match_def map_of_cache_put)
qed

lemma caches_keys_caches_open:
  "set (caches_keys (caches_open n st)) = insert n (set (caches_keys st))"
  by (auto simp: caches_open_def caches_keys_def)

lemma strategy_network_success:
  assumes "net rq = Inr networkResponse"
  shows "networkFirstStrategy net st rq
           = \<lparr>settled = Fulfilled networkResponse,
              store = caches_open RUNTIME_CACHE st,
              detached = (if status networkResponse = 200
                          then [(RUNTIME_CACHE, rq, networkResponse)] else []),
              calls = []\<rparr>"
  using assms by (simp add: networkFirstStrategy_def Let_def)

subsection \<open>Activation and clearing\<close>

lemma names_differ: "CACHE_NAME \<noteq> RUNTIME_CACHE"
  by (simp add: CACHE_NAME_def RUNTIME_CACHE_def)

lemma activate_store:
  "store (activate_listener st)
     = filter (\<lambda>p. fst p = CACHE_NAME \<or> fst p = RUNTIME_CACHE) st"
proof -
  have "store (activate_listener st)
          = filter (\<lambda>p. \<not> (fst p \<in> set (map fst st)
                             \<and> fst p \<noteq> CACHE_NAME \<and> fst p \<noteq> RUNTIME_CACHE)) st"
    by (simp add: activate_listener_def Let_def caches_keys_def
          fold_delete_stale [where P = "\<lambda>n. n \<noteq> CACHE_NAME \<and> n \<noteq> RUNTIME_CACHE"])
  also have "\<dots> = filter (\<lambda>p. fst p = CACHE_NAME \<or> fst p = RUNTIME_CACHE) st"
    by (rule filter_cong) auto
  finally show ?thesis .
qed

lemma map_of_filter_kept:
  "keep k \<Longrightarrow> map_of (filter (\<lambda>p. keep (fst p)) st) k = map_of st k"
  by (induction st) auto

lemma filter_the_one:
  "distinct ns \<Longrightarrow> filter (\<lambda>n. n = c) ns = (if c \<in> set ns then [c] else [])"
  by (induction ns) auto

lemma clear_cache_store:
  "store (message_listener st (Some \<lparr>type = Some ''CLEAR_CACHE''\<rparr>)) = []"
  by (simp add: message_listener_def fold_caches_delete caches_keys_def)

subsection \<open>Bulk fetch and bulk write\<close>

lemma fetch_all_Inr:
  "fetch_all net rqs = Inr f \<Longrightarrow>
     map fst f = rqs \<and> (\<forall>p\<in>set f. net (fst p) = Inr (snd p) \<and> addAll_ok (snd p))"
proof (induction rqs arbitrary: f)
  case Nil
  then show ?case by simp
next
  case (Cons rq rqs)
  from Cons.prems obtain rs f' where
    rs: "net rq = Inr rs" "addAll_ok rs" and f': "fetch_all net rqs = Inr f'"
    and f: "f = (rq, rs) # f'"
    by (auto split: sum.splits if_splits)
  from Cons.IH [OF f'] rs f show ?case by simp
qed

lemma fetch_all_Inl_iff:
  "(\<exists>e. fetch_all net rqs = Inl e)
     \<longleftrightarrow> (\<exists>rq\<in>set rqs. \<forall>rs. net rq = Inr rs \<longrightarrow> \<not> addAll_ok rs)"
proof (induction rqs)
  case Nil
  show ?case by simp
next
  case (Cons rq rqs)
  show ?case
  proof (cases "net rq")
    case (Inl e)
    then show ?thesis by simp
  next
    case (Inr rs)
    show ?thesis
    proof (cases "addAll_ok rs")
      case False
      with Inr show ?thesis by auto
    next
      case True
      have "(\<exists>e. fetch_all net (rq # rqs) = Inl e) \<longleftrightarrow> (\<exists>e. fetch_all net rqs = Inl e)"
        using Inr True by (cases "fetch_all net rqs") simp_all
      with Cons.IH Inr True show ?thesis by auto
    qed
  qed
qed

lemma caches_keys_store_put: "caches_keys (store_put n rq rs st) = caches_keys st"
  by (induction st) (auto simp: store_put_def caches_keys_def)

lemma partition_match_put_all:
  "partition_match m (put_all n f st) q
     = (if m = n \<and> n \<in> set (caches_keys st)
        then (case map_of (rev (map (\<lambda>p. (cache_key (fst p), snd p)) f)) (cache_key q) of
                Some rs \<Rightarrow> Some rs
              | None \<Rightarrow> partition_match m st q)
        else partition_match m st q)"
proof (induction f arbitrary: st)
  case Nil
  show ?case by simp
next
  case (Cons p f)
  obtain rq rs where p: "p = (rq, rs)" by (cases p)
  have "partition_match m (put_all n (p # f) st) q
          = partition_match m (put_all n f (store_put n rq rs st)) q"
    by (simp add: p)
  also have "\<dots> = (if m = n \<and> n \<in> set (caches_keys st)
        then (case map_of (rev (map (\<lambda>p. (cache_key (fst p), snd p)) f)) (cache_key q) of
                Some rs' \<Rightarrow> Some rs'
              | None \<Rightarrow> partition_match m (store_put n rq rs st) q)
        else partition_match m (store_put n rq rs st) q)"
    by (simp add: Cons.IH caches_keys_store_put)
  also have "\<dots> = (if m = n \<and> n \<in> set (caches_keys st)
        then (case map_of (rev (map (\<lambda>p. (cache_key (fst p), snd p)) (p # f))) (cache_key q) of
                Some rs' \<Rightarrow> Some rs'
              | None \<Rightarrow> partition_match m st q)
        else partition_match m st q)"
    by (auto simp: p partition_match_store_put map_add_def split: option.splits)
  finally show ?case .
qed

text \<open>
  After a bulk write of what a bulk fetch returned for requests of different URLs, the
  partition answers a request that has the URL of a fetched one, fragments apart, with
  what was fetched for it, and any other request as before.
\<close>

lemma partition_match_put_fetched:
  assumes n: "n \<in> set (caches_keys st)"
    and d: "distinct (map (\<lambda>p. cache_key (fst p)) f)"
    and p: "p \<in> set f"
    and q: "cache_key q = cache_key (fst p)"
  shows "partition_match n (put_all n f st) q = Some (snd p)"
proof -
  let ?written = "rev (map (\<lambda>p. (cache_key (fst p), snd p)) f)"
  have "distinct (map fst ?written)"
    using d by (simp add: rev_map [symmetric] comp_def)
  moreover have "(cache_key q, snd p) \<in> set ?written"
    using p q by force
  ultimately have "map_of ?written (cache_key q) = Some (snd p)"
    by (rule map_of_is_SomeI)
  with n show ?thesis
    by (simp add: partition_match_put_all)
qed

lemma partition_match_put_others:
  assumes "cache_key q \<notin> (\<lambda>p. cache_key (fst p)) ` set f"
  shows "partition_match m (put_all n f st) q = partition_match m st q"
proof -
  let ?written = "rev (map (\<lambda>p. (cache_key (fst p), snd p)) f)"
  have "fst ` set ?written = (\<lambda>p. cache_key (fst p)) ` set f"
    by (simp add: image_image)
  with assms have "map_of ?written (cache_key q) = None"
    by (simp add: map_of_eq_None_iff)
  then show ?thesis
    by (simp add: partition_match_put_all)
qed

subsection \<open>Resolving the asset paths\<close>

lemma directory_without_fragment: "CHR ''#'' \<notin> set (directory_of location)"
proof
  let ?path = "takeWhile (\<lambda>c. c \<noteq> CHR ''?'' \<and> c \<noteq> CHR ''#'') location"
  assume "CHR ''#'' \<in> set (directory_of location)"
  then have "CHR ''#'' \<in> set (dropWhile (\<lambda>c. c \<noteq> CHR ''/'') (rev ?path))"
    by (simp add: directory_of_def)
  then have "CHR ''#'' \<in> set (rev ?path)"
    by (rule set_dropWhileD)
  then have "CHR ''#'' \<in> set ?path"
    by simp
  from set_takeWhileD [OF this] show False
    by simp
qed

lemma asset_key:
  assumes "a \<in> set STATIC_ASSETS"
  shows "cache_key (GET (resolve location a)) = resolve location a"
proof -
  from assms have "CHR ''#'' \<notin> set (drop 2 a)"
    by (auto simp: STATIC_ASSETS_def)
  with directory_without_fragment [of location]
  have "\<forall>c\<in>set (resolve location a). c \<noteq> CHR ''#''"
    by (auto simp: resolve_def)
  then show ?thesis
    by (simp add: cache_key_def GET_def)
qed

lemma resolve_inj:
  assumes "a \<in> set STATIC_ASSETS" and "b \<in> set STATIC_ASSETS"
    and "resolve location a = resolve location b"
  shows "a = b"
  using assms by (auto simp: STATIC_ASSETS_def resolve_def)

lemma asset_requests_distinct:
  "distinct (map (\<lambda>u. cache_key (GET (resolve location u))) STATIC_ASSETS)"
proof -
  have "distinct STATIC_ASSETS"
    by (simp add: STATIC_ASSETS_def)
  moreover have "inj_on (\<lambda>u. cache_key (GET (resolve location u))) (set STATIC_ASSETS)"
    by (rule inj_onI) (simp add: asset_key resolve_inj)
  ultimately show ?thesis
    by (simp add: distinct_map)
qed

subsection \<open>Installation\<close>

lemma install_rejected:
  assumes "\<exists>a\<in>set STATIC_ASSETS.
             \<forall>rs. net (GET (resolve location a)) = Inr rs \<longrightarrow> \<not> addAll_ok rs"
  shows "\<exists>e. install_listener net location st
           = \<lparr>settled = Rejected e, store = caches_open CACHE_NAME st, detached = [],
              calls = []\<rparr>"
proof -
  let ?rqs = "map (\<lambda>u. GET (resolve location u)) STATIC_ASSETS"
  from assms have "\<exists>rq\<in>set ?rqs. \<forall>rs. net rq = Inr rs \<longrightarrow> \<not> addAll_ok rs"
    by simp
  then obtain e where "fetch_all net ?rqs = Inl e"
    using fetch_all_Inl_iff [of net ?rqs] by blast
  then show ?thesis
    by (simp add: install_listener_def cache_addAll_def Let_def)
qed

lemma install_fulfilled:
  assumes "\<forall>a\<in>set STATIC_ASSETS. \<exists>rs. net (GET (resolve location a)) = Inr rs \<and> addAll_ok rs"
  shows "\<exists>f. map fst f = map (\<lambda>u. GET (resolve location u)) STATIC_ASSETS
           \<and> (\<forall>p\<in>set f. net (fst p) = Inr (snd p))
           \<and> install_listener net location st
               = \<lparr>settled = Fulfilled (),
                  store = put_all CACHE_NAME f (caches_open CACHE_NAME st),
                  detached = [], calls = [SkipWaiting]\<rparr>"
proof -
  let ?rqs = "map (\<lambda>u. GET (resolve location u)) STATIC_ASSETS"
  from assms have "\<not> (\<exists>rq\<in>set ?rqs. \<forall>rs. net rq = Inr rs \<longrightarrow> \<not> addAll_ok rs)"
    by auto
  then have "\<not> (\<exists>e. fetch_all net ?rqs = Inl e)"
    using fetch_all_Inl_iff [of net ?rqs] by blast
  then obtain f where f: "fetch_all net ?rqs = Inr f"
    by (cases "fetch_all net ?rqs") auto
  from fetch_all_Inr [OF f] have m: "map fst f = ?rqs"
    and net: "\<forall>p\<in>set f. net (fst p) = Inr (snd p)"
    by simp_all
  have "map (\<lambda>p. cache_key (fst p)) f = map cache_key (map fst f)"
    by simp
  then have "distinct (map (\<lambda>p. cache_key (fst p)) f)"
    unfolding m using asset_requests_distinct [of location] by (simp add: comp_def)
  with f have "install_listener net location st
      = \<lparr>settled = Fulfilled (), store = put_all CACHE_NAME f (caches_open CACHE_NAME st),
         detached = [], calls = [SkipWaiting]\<rparr>"
    by (simp add: install_listener_def cache_addAll_def Let_def)
  with m net show ?thesis by blast
qed

lemma install_stores_asset:
  assumes ok: "\<forall>a\<in>set STATIC_ASSETS. \<exists>rs. net (GET (resolve location a)) = Inr rs \<and> addAll_ok rs"
    and a: "a \<in> set STATIC_ASSETS"
    and rs: "net (GET (resolve location a)) = Inr rs"
    and q: "cache_key q = resolve location a"
  shows "partition_match CACHE_NAME (store (install_listener net location st)) q = Some rs"
proof -
  from install_fulfilled [OF ok, of st] obtain f where
    f: "map fst f = map (\<lambda>u. GET (resolve location u)) STATIC_ASSETS"
    and net: "\<forall>p\<in>set f. net (fst p) = Inr (snd p)"
    and h: "store (install_listener net location st)
              = put_all CACHE_NAME f (caches_open CACHE_NAME st)"
    by auto
  have opened: "CACHE_NAME \<in> set (caches_keys (caches_open CACHE_NAME st))"
    by (simp add: caches_keys_caches_open)
  have "map (\<lambda>p. cache_key (fst p)) f = map cache_key (map fst f)"
    by simp
  then have d: "distinct (map (\<lambda>p. cache_key (fst p)) f)"
    unfolding f using asset_requests_distinct [of location] by (simp add: comp_def)
  from a have "GET (resolve location a) \<in> set (map fst f)"
    unfolding f by simp
  then obtain p where p: "p \<in> set f" "fst p = GET (resolve location a)"
    by auto
  with net rs have "snd p = rs"
    by auto
  moreover from p(2) q a have "cache_key q = cache_key (fst p)"
    by (simp add: asset_key)
  ultimately show ?thesis
    using partition_match_put_fetched [OF opened d p(1), of q] by (simp add: h)
qed

lemma install_keeps_other_urls:
  assumes "cache_key q \<notin> asset_urls location"
  shows "partition_match CACHE_NAME (store (install_listener net location st)) q
           = partition_match CACHE_NAME st q"
proof (cases "cache_addAll net location CACHE_NAME STATIC_ASSETS (caches_open CACHE_NAME st)")
  case (Pair settled' st')
  have "partition_match CACHE_NAME st' q = partition_match CACHE_NAME st q"
  proof (cases "fetch_all net (map (\<lambda>u. GET (resolve location u)) STATIC_ASSETS)")
    case (Inl e)
    with Pair show ?thesis
      by (auto simp: cache_addAll_def partition_match_caches_open)
  next
    case (Inr f)
    from fetch_all_Inr [OF Inr]
    have m: "map fst f = map (\<lambda>u. GET (resolve location u)) STATIC_ASSETS"
      by simp
    have "(\<lambda>p. cache_key (fst p)) ` set f = cache_key ` set (map fst f)"
      by (simp add: image_image)
    also have "\<dots> = (\<lambda>u. cache_key (GET (resolve location u))) ` set STATIC_ASSETS"
      unfolding m by (simp add: image_image)
    also have "\<dots> = asset_urls location"
      by (auto simp: asset_urls_def asset_key)
    finally have "cache_key q \<notin> (\<lambda>p. cache_key (fst p)) ` set f"
      using assms by simp
    with Pair Inr show ?thesis
      by (auto simp: cache_addAll_def partition_match_put_others partition_match_caches_open
          split: if_splits)
  qed
  with Pair show ?thesis
    by (cases settled') (simp_all add: install_listener_def Let_def)
qed

lemma install_other_partitions:
  assumes "n \<noteq> CACHE_NAME"
  shows "partition_match n (store (install_listener net location st)) q = partition_match n st q"
proof -
  have "partition_match n (store (install_listener net location st)) q
          = partition_match n (caches_open CACHE_NAME st) q"
    using assms
    by (simp add: install_listener_def cache_addAll_def Let_def partition_match_put_all
          split: sum.splits)
  then show ?thesis
    by (simp add: partition_match_caches_open)
qed

lemma example_com_serves_assets:
  "\<forall>a\<in>set STATIC_ASSETS. \<exists>rs. online (GET (resolve at_example_com a)) = Inr rs \<and> addAll_ok rs"
  by (simp add: online_def addAll_ok_def page_def vary_star_def)

subsection \<open>Visits and the example stores\<close>



lemma page_is_stored: "addAll_ok (page b)" "put_accepts (GET index_html) (page b)"
  by (simp_all add: addAll_ok_def put_accepts_def page_def vary_star_def GET_def index_html_def)

lemma index_html_resolved:
  "''./index.html'' \<in> set STATIC_ASSETS"
  "resolve at_example_com ''./index.html'' = index_html"
  "cache_key (GET index_html) = index_html"
  "cache_key (GET index_html) \<in> asset_urls at_example_com"
  by (simp_all add: STATIC_ASSETS_def resolve_def directory_of_def at_example_com_def
        index_html_def cache_key_def GET_def asset_urls_def)



lemma offline_response_fields:
  "offline_response =
     \<lparr>status = 503,
      statusText = ''Service Unavailable'',
      headers = [(''Content-Type'', ''application/json'')],
      body = ''{'' @ [CHR 0x22] @ ''error'' @ [CHR 0x22] @ '':'' @ [CHR 0x22]
               @ ''Offline and resource not cached'' @ [CHR 0x22] @ '','' @ [CHR 0x22]
               @ ''message'' @ [CHR 0x22] @ '':'' @ [CHR 0x22]
               @ [CHR 0xD7, CHR 0x94, CHR 0xD7, CHR 0x90, CHR 0xD7, CHR 0xA4, CHR 0xD7, CHR 0x9C,
                  CHR 0xD7, CHR 0x99, CHR 0xD7, CHR 0xA7, CHR 0xD7, CHR 0xA6, CHR 0xD7, CHR 0x99,
                  CHR 0xD7, CHR 0x94, CHR 0x20, CHR 0xD7, CHR 0x96, CHR 0xD7, CHR 0x9E, CHR 0xD7,
                  CHR 0x99, CHR 0xD7, CHR 0xA0, CHR 0xD7, CHR 0x94, CHR 0x20, CHR 0xD7, CHR 0x91,
                  CHR 0xD7, CHR 0x9E, CHR 0xD7, CHR 0xA6, CHR 0xD7, CHR 0x91, CHR 0x20, CHR 0xD7,
                  CHR 0x9C, CHR 0xD7, CHR 0x90, CHR 0x20, CHR 0xD7, CHR 0x9E, CHR 0xD7, CHR 0xA7,
                  CHR 0xD7, CHR 0x95, CHR 0xD7, CHR 0x95, CHR 0xD7, CHR 0x9F, CHR 0x2C, CHR 0x20,
                  CHR 0xD7, CHR 0x90, CHR 0xD7, CHR 0x9A, CHR 0x20, CHR 0xD7, CHR 0x94, CHR 0xD7,
                  CHR 0x9E, CHR 0xD7, CHR 0xA9, CHR 0xD7, CHR 0x90, CHR 0xD7, CHR 0x91, CHR 0x20,
                  CHR 0xD7, CHR 0x94, CHR 0xD7, CHR 0x9E, CHR 0xD7, CHR 0x91, CHR 0xD7, CHR 0x95,
                  CHR 0xD7, CHR 0xA7, CHR 0xD7, CHR 0xA9, CHR 0x20, CHR 0xD7, CHR 0x9C, CHR 0xD7,
                  CHR 0x90, CHR 0x20, CHR 0xD7, CHR 0xA0, CHR 0xD7, CHR 0x9E, CHR 0xD7, CHR 0xA6,
                  CHR 0xD7, CHR 0x90, CHR 0x20, CHR 0xD7, CHR 0x91, CHR 0xD7, CHR 0x9E, CHR 0xD7,
                  CHR 0x98, CHR 0xD7, CHR 0x9E, CHR 0xD7, CHR 0x95, CHR 0xD7, CHR 0x9F]
               @ [CHR 0x22] @ ''}''\<rparr>"
proof -
  have plain: "JSON_quote OFFLINE_MESSAGE = [CHR 0x22] @ OFFLINE_MESSAGE @ [CHR 0x22]"
    by (simp add: JSON_quote_def OFFLINE_MESSAGE_def)
  show ?thesis
    by (simp add: offline_response_def JSON_stringify_def plain)
       (simp add: JSON_quote_def OFFLINE_MESSAGE_def)
qed

lemma unknown_json_intercepted:
  "fetch_listener net st (GET ''https://example.com/unknown.json'')
     = RespondWith (networkFirstStrategy net st (GET ''https://example.com/unknown.json''))"
  by (simp add: fetch_listener_def GET_def URL_protocol_def startsWith_def)

lemma example_matches:
  "partition_match RUNTIME_CACHE both_cached (GET ''https://example.com/index.html#top'')
     = Some (page ''revisited'')"
  "partition_match RUNTIME_CACHE static_cached (GET index_html) = None"
  "partition_match CACHE_NAME static_cached (GET index_html) = Some (page ''installed'')"
  "partition_match RUNTIME_CACHE static_cached (GET ''https://example.com/unknown.json'') = None"
  "partition_match CACHE_NAME static_cached (GET ''https://example.com/unknown.json'') = None"
  by (simp_all add: partition_match_def both_cached_def static_cached_def cache_match_def
        cache_key_def GET_def CACHE_NAME_def RUNTIME_CACHE_def index_html_def)

subsection \<open>What later events leave of the partitions\<close>






section \<open>What the handlers guarantee\<close>

subsection \<open>install\<close>

text \<open>
  C6 does not hold as specified. The handler opens the partition and adds to it, so what
  the partition held before under other URLs is still there after a successful install:
  first the partition of the current release holds \<open>old.js\<close> when the install starts.
  And an install fails without any fetch failing: next every asset is answered, with
  status 404, and then with status 200 and \<open>Vary: *\<close>, and the bulk write is refused.
\<close>

theorem install_not_as_specified:
  "settled (install_listener online at_example_com leftover) = Fulfilled ()
   \<and> partition_match CACHE_NAME (store (install_listener online at_example_com leftover))
        (GET ''https://example.com/old.js'') = Some (page ''old'')
   \<and> ''https://example.com/old.js'' \<notin> asset_urls at_example_com
   \<and> settled (install_listener not_found at_example_com []) = Rejected TypeError
   \<and> calls (install_listener not_found at_example_com []) = []
   \<and> settled (install_listener negotiated at_example_com []) = Rejected TypeError
   \<and> calls (install_listener negotiated at_example_com []) = []"
proof -
  have a: "settled (install_listener online at_example_com leftover) = Fulfilled ()"
    using install_fulfilled [OF example_com_serves_assets, of leftover] by auto
  have d: "''https://example.com/old.js'' \<notin> asset_urls at_example_com"
    by (simp add: asset_urls_def STATIC_ASSETS_def resolve_def directory_of_def
          at_example_com_def)
  have b: "cache_key (GET ''https://example.com/old.js'') \<notin> asset_urls at_example_com"
    using d by (simp add: GET_def cache_key_def)
  have c: "partition_match CACHE_NAME leftover (GET ''https://example.com/old.js'')
             = Some (page ''old'')"
    by (simp add: partition_match_def leftover_def cache_match_def GET_def cache_key_def)
  have e: "partition_match CACHE_NAME (store (install_listener online at_example_com leftover))
        (GET ''https://example.com/old.js'') = Some (page ''old'')"
    using install_keeps_other_urls [OF b, of online leftover] c by simp
  have f: "install_listener not_found at_example_com []
             = \<lparr>settled = Rejected TypeError, store = [(CACHE_NAME, [])], detached = [],
                calls = []\<rparr>"
    by (simp add: install_listener_def cache_addAll_def STATIC_ASSETS_def not_found_def
          addAll_ok_def caches_open_def caches_keys_def Let_def)
  have g: "install_listener negotiated at_example_com []
             = \<lparr>settled = Rejected TypeError, store = [(CACHE_NAME, [])], detached = [],
                calls = []\<rparr>"
    by (simp add: install_listener_def cache_addAll_def STATIC_ASSETS_def negotiated_def
          addAll_ok_def vary_star_def ascii_lower_def trim_def caches_open_def
          caches_keys_def Let_def)
  from a e d show ?thesis
    by (simp add: f g)
qed

text \<open>
  C6, amended. The install handler opens the static partition of the current release and
  fetches every entry of the asset list. If one fetch throws, or is answered with a
  response the cache refuses (a status outside 200..299, status 206, or \<open>Vary: *\<close>), the
  promise given to \<open>waitUntil\<close> rejects, \<open>skipWaiting\<close> is not called and no partition
  has an entry more or less than before. If every fetch is answered with a response the
  cache accepts, the promise is fulfilled, \<open>skipWaiting\<close> is called, the static
  partition answers each listed asset with the response fetched for it, its entries for
  other URLs and the other partitions are as before; so a static partition that was
  absent or empty before holds exactly the listed entries.
\<close>

theorem install_all_or_nothing:
  "((\<exists>a\<in>set STATIC_ASSETS.
       \<forall>rs. net (GET (resolve location a)) = Inr rs \<longrightarrow> \<not> addAll_ok rs) \<longrightarrow>
      (\<exists>e. settled (install_listener net location st) = Rejected e)
      \<and> calls (install_listener net location st) = []
      \<and> (\<forall>n q. partition_match n (store (install_listener net location st)) q
                 = partition_match n st q))
   \<and> ((\<forall>a\<in>set STATIC_ASSETS.
         \<exists>rs. net (GET (resolve location a)) = Inr rs \<and> addAll_ok rs) \<longrightarrow>
      settled (install_listener net location st) = Fulfilled ()
      \<and> calls (install_listener net location st) = [SkipWaiting]
      \<and> (\<forall>a\<in>set STATIC_ASSETS. \<forall>rs. net (GET (resolve location a)) = Inr rs \<longrightarrow>
             partition_match CACHE_NAME (store (install_listener net location st))
               (GET (resolve location a)) = Some rs)
      \<and> (\<forall>q. cache_key q \<notin> asset_urls location \<longrightarrow>
             partition_match CACHE_NAME (store (install_listener net location st)) q
               = partition_match CACHE_NAME st q)
      \<and> (\<forall>n q. n \<noteq> CACHE_NAME \<longrightarrow>
             partition_match n (store (install_listener net location st)) q
               = partition_match n st q)
      \<and> ((\<forall>q. partition_match CACHE_NAME st q = None) \<longrightarrow>
            (\<forall>q. partition_match CACHE_NAME (store (install_listener net location st)) q
                     \<noteq> None
                   \<longleftrightarrow> cache_key q \<in> asset_urls location)))"
proof (intro conjI impI)
  assume bad: "\<exists>a\<in>set STATIC_ASSETS.
      \<forall>rs. net (GET (resolve location a)) = Inr rs \<longrightarrow> \<not> addAll_ok rs"
  from install_rejected [OF bad, of st] obtain e where
    h: "install_listener net location st
          = \<lparr>settled = Rejected e, store = caches_open CACHE_NAME st, detached = [],
             calls = []\<rparr>"
    by blast
  show "\<exists>e. settled (install_listener net location st) = Rejected e"
    by (simp add: h)
  show "calls (install_listener net location st) = []"
    by (simp add: h)
  show "\<forall>n q. partition_match n (store (install_listener net location st)) q
               = partition_match n st q"
    by (simp add: h partition_match_caches_open)
next
  assume ok: "\<forall>a\<in>set STATIC_ASSETS.
      \<exists>rs. net (GET (resolve location a)) = Inr rs \<and> addAll_ok rs"
  from install_fulfilled [OF ok, of st]
  show "settled (install_listener net location st) = Fulfilled ()"
    and "calls (install_listener net location st) = [SkipWaiting]"
    by auto
  show "\<forall>a\<in>set STATIC_ASSETS. \<forall>rs. net (GET (resolve location a)) = Inr rs \<longrightarrow>
          partition_match CACHE_NAME (store (install_listener net location st))
            (GET (resolve location a)) = Some rs"
    using install_stores_asset [OF ok] by (simp add: asset_key)
  show "\<forall>q. cache_key q \<notin> asset_urls location \<longrightarrow>
          partition_match CACHE_NAME (store (install_listener net location st)) q
            = partition_match CACHE_NAME st q"
    by (simp add: install_keeps_other_urls)
  show "\<forall>n q. n \<noteq> CACHE_NAME \<longrightarrow>
          partition_match n (store (install_listener net location st)) q
            = partition_match n st q"
    by (simp add: install_other_partitions)
next
  assume ok: "\<forall>a\<in>set STATIC_ASSETS.
      \<exists>rs. net (GET (resolve location a)) = Inr rs \<and> addAll_ok rs"
    and empty: "\<forall>q. partition_match CACHE_NAME st q = None"
  show "\<forall>q. partition_match CACHE_NAME (store (install_listener net location st)) q \<noteq> None
              \<longleftrightarrow> cache_key q \<in> asset_urls location"
  proof
    fix q
    show "partition_match CACHE_NAME (store (install_listener net location st)) q \<noteq> None
            \<longleftrightarrow> cache_key q \<in> asset_urls location"
    proof (cases "cache_key q \<in> asset_urls location")
      case False
      with empty show ?thesis by (simp add: install_keeps_other_urls)
    next
      case True
      then obtain a where a: "a \<in> set STATIC_ASSETS" "cache_key q = resolve location a"
        by (auto simp: asset_urls_def)
      with ok obtain rs where "net (GET (resolve location a)) = Inr rs"
        by blast
      from install_stores_asset [OF ok a(1) this a(2), of st] True show ?thesis
        by simp
    qed
  qed
qed

theorem install_all_or_nothing_witness:
  "settled (install_listener online at_example_com []) = Fulfilled ()
   \<and> calls (install_listener online at_example_com []) = [SkipWaiting]
   \<and> partition_match CACHE_NAME (store (install_listener online at_example_com []))
        (GET index_html) = Some (page index_html)
   \<and> (\<exists>e. settled (install_listener offline at_example_com []) = Rejected e)
   \<and> calls (install_listener offline at_example_com []) = []"
proof -
  have down: "\<exists>a\<in>set STATIC_ASSETS.
      \<forall>rs. offline (GET (resolve at_example_com a)) = Inr rs \<longrightarrow> \<not> addAll_ok rs"
    by (auto simp: offline_def STATIC_ASSETS_def)
  have i: "online (GET (resolve at_example_com ''./index.html'')) = Inr (page index_html)"
    by (simp add: online_def GET_def index_html_resolved)
  from install_all_or_nothing [of online at_example_com "[]"] example_com_serves_assets
  have ok: "settled (install_listener online at_example_com []) = Fulfilled ()"
    "calls (install_listener online at_example_com []) = [SkipWaiting]"
    "\<forall>a\<in>set STATIC_ASSETS.
        \<forall>rs. online (GET (resolve at_example_com a)) = Inr rs \<longrightarrow>
          partition_match CACHE_NAME (store (install_listener online at_example_com []))
            (GET (resolve at_example_com a)) = Some rs"
    by blast+
  from ok(3) index_html_resolved(1) i have stored:
    "partition_match CACHE_NAME (store (install_listener online at_example_com []))
       (GET (resolve at_example_com ''./index.html'')) = Some (page index_html)"
    by blast
  from install_all_or_nothing [of offline at_example_com "[]"] down have
    "\<exists>e. settled (install_listener offline at_example_com []) = Rejected e"
    "calls (install_listener offline at_example_com []) = []"
    by blast+
  with ok(1,2) stored show ?thesis
    by (simp add: index_html_resolved)
qed

subsection \<open>activate\<close>

text \<open>
  C5 does not hold as specified: activation deletes and never creates, so when the
  current static partition is not there, none is left. Here the release is installed, a
  \<open>CLEAR_CACHE\<close> message is handled, and the release is then activated.
\<close>

theorem activate_after_clear_leaves_no_static_partition:
  "static_partitions
     (store (activate_listener
        (store (message_listener (store (install_listener online at_example_com []))
                  CLEAR_CACHE)))) = []
   \<and> static_partitions
       (store (activate_listener
          (store (message_listener (store (install_listener online at_example_com []))
                    CLEAR_CACHE)))) \<noteq> [CACHE_NAME]"
  by (simp add: CLEAR_CACHE_def clear_cache_store activate_store static_partitions_def
        caches_keys_def)

text \<open>
  C5, amended. After the activate handler no partition is left whose name is neither the
  current static name nor the runtime name; the current static partition and the runtime
  partition are each as they were, present with the same entries or absent; so the
  static partitions left are the current one alone when it existed before activation,
  and none otherwise. The handler then claims the open clients.
\<close>

theorem activate_deletes_stale_partitions:
  assumes "distinct (caches_keys st)"
  shows "(\<forall>n. n \<noteq> CACHE_NAME \<and> n \<noteq> RUNTIME_CACHE \<longrightarrow>
             n \<notin> set (caches_keys (store (activate_listener st))))
         \<and> map_of (store (activate_listener st)) CACHE_NAME = map_of st CACHE_NAME
         \<and> map_of (store (activate_listener st)) RUNTIME_CACHE = map_of st RUNTIME_CACHE
         \<and> static_partitions (store (activate_listener st))
             = (if CACHE_NAME \<in> set (caches_keys st) then [CACHE_NAME] else [])
         \<and> settled (activate_listener st) = Fulfilled ()
         \<and> calls (activate_listener st) = [ClientsClaim]"
proof -
  let ?keep = "\<lambda>n. n = CACHE_NAME \<or> n = RUNTIME_CACHE"
  have st': "store (activate_listener st) = filter (\<lambda>p. ?keep (fst p)) st"
    by (rule activate_store)
  have gone: "\<forall>n. n \<noteq> CACHE_NAME \<and> n \<noteq> RUNTIME_CACHE \<longrightarrow>
                 n \<notin> set (caches_keys (store (activate_listener st)))"
    by (auto simp: st' caches_keys_def)
  have static: "map_of (store (activate_listener st)) CACHE_NAME = map_of st CACHE_NAME"
    unfolding st' by (rule map_of_filter_kept) simp
  have runtime: "map_of (store (activate_listener st)) RUNTIME_CACHE = map_of st RUNTIME_CACHE"
    unfolding st' by (rule map_of_filter_kept) simp
  have "static_partitions (store (activate_listener st))
          = filter (\<lambda>n. n \<noteq> RUNTIME_CACHE \<and> ?keep n) (caches_keys st)"
    by (simp add: static_partitions_def st' caches_keys_def filter_map comp_def conj_commute)
  also have "\<dots> = filter (\<lambda>n. n = CACHE_NAME) (caches_keys st)"
    using names_differ by (intro filter_cong) auto
  also have "\<dots> = (if CACHE_NAME \<in> set (caches_keys st) then [CACHE_NAME] else [])"
    using assms by (rule filter_the_one)
  finally have one: "static_partitions (store (activate_listener st))
      = (if CACHE_NAME \<in> set (caches_keys st) then [CACHE_NAME] else [])" .
  have rest: "settled (activate_listener st) = Fulfilled ()"
    "calls (activate_listener st) = [ClientsClaim]"
    by (simp_all add: activate_listener_def Let_def)
  from gone static runtime one rest show ?thesis by blast
qed

theorem activate_deletes_stale_partitions_witness:
  "distinct (caches_keys upgraded)
   \<and> caches_keys upgraded = [''memory-match-v2.2.0'', RUNTIME_CACHE, CACHE_NAME]
   \<and> ''memory-match-v2.2.0'' \<notin> set (caches_keys (store (activate_listener upgraded)))
   \<and> map_of (store (activate_listener upgraded)) RUNTIME_CACHE
       = Some [(index_html, page ''revisited'')]
   \<and> map_of (store (activate_listener upgraded)) CACHE_NAME
       = Some [(index_html, page ''installed'')]
   \<and> static_partitions (store (activate_listener upgraded)) = [CACHE_NAME]"
proof -
  have k: "caches_keys upgraded = [''memory-match-v2.2.0'', RUNTIME_CACHE, CACHE_NAME]"
    by (simp add: upgraded_def caches_keys_def)
  have d: "distinct (caches_keys upgraded)"
    by (simp add: k CACHE_NAME_def RUNTIME_CACHE_def)
  have old: "''memory-match-v2.2.0'' \<noteq> CACHE_NAME \<and> ''memory-match-v2.2.0'' \<noteq> RUNTIME_CACHE"
    by (simp add: CACHE_NAME_def RUNTIME_CACHE_def)
  have m: "map_of upgraded RUNTIME_CACHE = Some [(index_html, page ''revisited'')]"
    "map_of upgraded CACHE_NAME = Some [(index_html, page ''installed'')]"
    by (simp_all add: upgraded_def CACHE_NAME_def RUNTIME_CACHE_def)
  show ?thesis
    using activate_deletes_stale_partitions [OF d] d k old m by simp
qed

subsection \<open>fetch\<close>

text \<open>
  C1. When the fetch of an intercepted request throws, the promise handed to
  \<open>respondWith\<close> is fulfilled, never rejected, and its value is the runtime partition's
  match for the request when there is one, otherwise the static partition's match when
  there is one, otherwise the response synthesized on the spot: status 503, status text
  \<open>Service Unavailable\<close>, a JSON content type and the JSON body of the source.
\<close>

theorem network_failure_fallback_chain:
  assumes "fetch_listener net st rq = RespondWith h"
    and "net rq = Inl e"
  shows "settled h
           = Fulfilled
               (case partition_match RUNTIME_CACHE st rq of
                  Some cached \<Rightarrow> cached
                | None \<Rightarrow>
                    (case partition_match CACHE_NAME st rq of
                       Some static \<Rightarrow> static
                     | None \<Rightarrow>
                         \<lparr>status = 503,
                          statusText = ''Service Unavailable'',
                          headers = [(''Content-Type'', ''application/json'')],
                          body = ''{'' @ [CHR 0x22] @ ''error'' @ [CHR 0x22] @ '':'' @ [CHR 0x22]
                                   @ ''Offline and resource not cached'' @ [CHR 0x22] @ '','' @ [CHR 0x22]
                                   @ ''message'' @ [CHR 0x22] @ '':'' @ [CHR 0x22]
                                   @ [CHR 0xD7, CHR 0x94, CHR 0xD7, CHR 0x90, CHR 0xD7, CHR 0xA4, CHR 0xD7, CHR 0x9C,
                                      CHR 0xD7, CHR 0x99, CHR 0xD7, CHR 0xA7, CHR 0xD7, CHR 0xA6, CHR 0xD7, CHR 0x99,
                                      CHR 0xD7, CHR 0x94, CHR 0x20, CHR 0xD7, CHR 0x96, CHR 0xD7, CHR 0x9E, CHR 0xD7,
                                      CHR 0x99, CHR 0xD7, CHR 0xA0, CHR 0xD7, CHR 0x94, CHR 0x20, CHR 0xD7, CHR 0x91,
                                      CHR 0xD7, CHR 0x9E, CHR 0xD7, CHR 0xA6, CHR 0xD7, CHR 0x91, CHR 0x20, CHR 0xD7,
                                      CHR 0x9C, CHR 0xD7, CHR 0x90, CHR 0x20, CHR 0xD7, CHR 0x9E, CHR 0xD7, CHR 0xA7,
                                      CHR 0xD7, CHR 0x95, CHR 0xD7, CHR 0x95, CHR 0xD7, CHR 0x9F, CHR 0x2C, CHR 0x20,
                                      CHR 0xD7, CHR 0x90, CHR 0xD7, CHR 0x9A, CHR 0x20, CHR 0xD7, CHR 0x94, CHR 0xD7,
                                      CHR 0x9E, CHR 0xD7, CHR 0xA9, CHR 0xD7, CHR 0x90, CHR 0xD7, CHR 0x91, CHR 0x20,
                                      CHR 0xD7, CHR 0x94, CHR 0xD7, CHR 0x9E, CHR 0xD7, CHR 0x91, CHR 0xD7, CHR 0x95,
                                      CHR 0xD7, CHR 0xA7, CHR 0xD7, CHR 0xA9, CHR 0x20, CHR 0xD7, CHR 0x9C, CHR 0xD7,
                                      CHR 0x90, CHR 0x20, CHR 0xD7, CHR 0xA0, CHR 0xD7, CHR 0x9E, CHR 0xD7, CHR 0xA6,
                                      CHR 0xD7, CHR 0x90, CHR 0x20, CHR 0xD7, CHR 0x91, CHR 0xD7, CHR 0x9E, CHR 0xD7,
                                      CHR 0x98, CHR 0xD7, CHR 0x9E, CHR 0xD7, CHR 0x95, CHR 0xD7, CHR 0x9F]
                                   @ [CHR 0x22] @ ''}''\<rparr>))
         \<and> (\<forall>err. settled h \<noteq> Rejected err)"
proof -
  from assms(1) have h: "h = networkFirstStrategy net st rq"
    by (simp add: intercepted_iff)
  show ?thesis
    unfolding h offline_response_fields [symmetric]
    using assms(2) strategy_network_failure [of net rq e st] by simp
qed

theorem network_failure_fallback_chain_witness:
  "settled (networkFirstStrategy offline both_cached (GET ''https://example.com/index.html#top''))
     = Fulfilled (page ''revisited'')
   \<and> settled (networkFirstStrategy offline static_cached (GET index_html))
       = Fulfilled (page ''installed'')
   \<and> settled (networkFirstStrategy offline static_cached (GET ''https://example.com/unknown.json''))
       = Fulfilled
           \<lparr>status = 503,
            statusText = ''Service Unavailable'',
            headers = [(''Content-Type'', ''application/json'')],
            body = ''{'' @ [CHR 0x22] @ ''error'' @ [CHR 0x22] @ '':'' @ [CHR 0x22]
                     @ ''Offline and resource not cached'' @ [CHR 0x22] @ '','' @ [CHR 0x22]
                     @ ''message'' @ [CHR 0x22] @ '':'' @ [CHR 0x22]
                     @ [CHR 0xD7, CHR 0x94, CHR 0xD7, CHR 0x90, CHR 0xD7, CHR 0xA4, CHR 0xD7, CHR 0x9C,
                        CHR 0xD7, CHR 0x99, CHR 0xD7, CHR 0xA7, CHR 0xD7, CHR 0xA6, CHR 0xD7, CHR 0x99,
                        CHR 0xD7, CHR 0x94, CHR 0x20, CHR 0xD7, CHR 0x96, CHR 0xD7, CHR 0x9E, CHR 0xD7,
                        CHR 0x99, CHR 0xD7, CHR 0xA0, CHR 0xD7, CHR 0x94, CHR 0x20, CHR 0xD7, CHR 0x91,
                        CHR 0xD7, CHR 0x9E, CHR 0xD7, CHR 0xA6, CHR 0xD7, CHR 0x91, CHR 0x20, CHR 0xD7,
                        CHR 0x9C, CHR 0xD7, CHR 0x90, CHR 0x20, CHR 0xD7, CHR 0x9E, CHR 0xD7, CHR 0xA7,
                        CHR 0xD7, CHR 0x95, CHR 0xD7, CHR 0x95, CHR 0xD7, CHR 0x9F, CHR 0x2C, CHR 0x20,
                        CHR 0xD7, CHR 0x90, CHR 0xD7, CHR 0x9A, CHR 0x20, CHR 0xD7, CHR 0x94, CHR 0xD7,
                        CHR 0x9E, CHR 0xD7, CHR 0xA9, CHR 0xD7, CHR 0x90, CHR 0xD7, CHR 0x91, CHR 0x20,
                        CHR 0xD7, CHR 0x94, CHR 0xD7, CHR 0x9E, CHR 0xD7, CHR 0x91, CHR 0xD7, CHR 0x95,
                        CHR 0xD7, CHR 0xA7, CHR 0xD7, CHR 0xA9, CHR 0x20, CHR 0xD7, CHR 0x9C, CHR 0xD7,
                        CHR 0x90, CHR 0x20, CHR 0xD7, CHR 0xA0, CHR 0xD7, CHR 0x9E, CHR 0xD7, CHR 0xA6,
                        CHR 0xD7, CHR 0x90, CHR 0x20, CHR 0xD7, CHR 0x91, CHR 0xD7, CHR 0x9E, CHR 0xD7,
                        CHR 0x98, CHR 0xD7, CHR 0x9E, CHR 0xD7, CHR 0x95, CHR 0xD7, CHR 0x9F]
                     @ [CHR 0x22] @ ''}''\<rparr>"
proof -
  have down: "offline rq = Inl NetworkError" for rq
    by (simp add: offline_def)
  have top: "fetch_listener offline both_cached (GET ''https://example.com/index.html#top'')
      = RespondWith
          (networkFirstStrategy offline both_cached (GET ''https://example.com/index.html#top''))"
    by (simp add: fetch_listener_def GET_def URL_protocol_def startsWith_def)
  from network_failure_fallback_chain [OF top down]
    network_failure_fallback_chain [OF index_html_intercepted [of offline static_cached] down]
    network_failure_fallback_chain [OF unknown_json_intercepted [of offline static_cached] down]
  show ?thesis
    by (simp add: example_matches)
qed

lemma negotiated_refused:
  "negotiated (GET index_html)
     = Inr \<lparr>status = 200, statusText = ''OK'', headers = [(''Vary'', ''*'')], body = index_html\<rparr>"
  "\<not> put_accepts (GET index_html)
       \<lparr>status = 200, statusText = ''OK'', headers = [(''Vary'', ''*'')], body = index_html\<rparr>"
  by (simp_all add: negotiated_def GET_def put_accepts_def vary_star_def ascii_lower_def
        trim_def)

text \<open>
  C2 does not hold as specified: the copy is handed to \<open>cache.put\<close> without \<open>await\<close>
  and without a handler, and the cache refuses a response that varies on \<open>*\<close>. Here the
  server answers \<open>index.html\<close> with status 200 and \<open>Vary: *\<close>: the response is returned,
  the write is started, and the runtime partition never holds it.
\<close>

theorem status_200_refused_by_cache_is_not_written:
  "settled (networkFirstStrategy negotiated static_cached (GET index_html))
     = Fulfilled \<lparr>status = 200, statusText = ''OK'', headers = [(''Vary'', ''*'')],
                  body = index_html\<rparr>
   \<and> detached (networkFirstStrategy negotiated static_cached (GET index_html))
       = [(RUNTIME_CACHE, GET index_html,
           \<lparr>status = 200, statusText = ''OK'', headers = [(''Vary'', ''*'')],
            body = index_html\<rparr>)]
   \<and> partition_match RUNTIME_CACHE
        (settle (networkFirstStrategy negotiated static_cached (GET index_html)))
        (GET index_html) = None"
  using negotiated_refused(2)
  by (simp add: settle_def partition_match_caches_open example_matches
        strategy_network_success [of negotiated "GET index_html" _ static_cached,
          OF negotiated_refused(1)])

text \<open>
  C2, amended. When the fetch of an intercepted request answers, with any status, the
  promise is fulfilled with that very response, and no partition holds anything new when
  it is. A write of the response under the request into the runtime partition is started,
  without being awaited, exactly when the status is 200. When the cache accepts that
  write (the request is a GET over http or https and the response does not vary on
  \<open>*\<close>), the runtime partition afterwards answers the request with that response and
  every other entry of every partition is as before. With any other status, or when the
  cache refuses the write, nothing is ever written.
\<close>

theorem network_success_caches_only_200:
  assumes "fetch_listener net st rq = RespondWith h"
    and "net rq = Inr networkResponse"
  shows "settled h = Fulfilled networkResponse
         \<and> (\<forall>n q. partition_match n (store h) q = partition_match n st q)
         \<and> (detached h \<noteq> [] \<longleftrightarrow> status networkResponse = 200)
         \<and> (status networkResponse = 200 \<longrightarrow>
              detached h = [(RUNTIME_CACHE, rq, networkResponse)])
         \<and> (status networkResponse = 200 \<and> put_accepts rq networkResponse \<longrightarrow>
              partition_match RUNTIME_CACHE (settle h) rq = Some networkResponse
              \<and> (\<forall>n q. n \<noteq> RUNTIME_CACHE \<or> cache_key q \<noteq> cache_key rq \<longrightarrow>
                     partition_match n (settle h) q = partition_match n st q))
         \<and> (status networkResponse \<noteq> 200 \<or> \<not> put_accepts rq networkResponse \<longrightarrow>
              (\<forall>n q. partition_match n (settle h) q = partition_match n st q))"
proof -
  from assms(1) have "h = networkFirstStrategy net st rq"
    by (simp add: intercepted_iff)
  with assms(2) have h: "h = \<lparr>settled = Fulfilled networkResponse,
        store = caches_open RUNTIME_CACHE st,
        detached = (if status networkResponse = 200
                    then [(RUNTIME_CACHE, rq, networkResponse)] else []),
        calls = []\<rparr>"
    by (simp add: strategy_network_success)
  have opened: "RUNTIME_CACHE \<in> set (caches_keys (caches_open RUNTIME_CACHE st))"
    by (simp add: caches_keys_caches_open)
  have 1: "settled h = Fulfilled networkResponse"
    by (simp add: h)
  have 2: "\<forall>n q. partition_match n (store h) q = partition_match n st q"
    by (simp add: h partition_match_caches_open)
  have 3: "detached h \<noteq> [] \<longleftrightarrow> status networkResponse = 200"
    by (simp add: h)
  have 4: "detached h = [(RUNTIME_CACHE, rq, networkResponse)]"
    if "status networkResponse = 200"
    using that by (simp add: h)
  have 5: "partition_match RUNTIME_CACHE (settle h) rq = Some networkResponse
           \<and> (\<forall>n q. n \<noteq> RUNTIME_CACHE \<or> cache_key q \<noteq> cache_key rq \<longrightarrow>
                  partition_match n (settle h) q = partition_match n st q)"
    if "status networkResponse = 200" "put_accepts rq networkResponse"
    using that opened
    by (auto simp: h settle_def partition_match_store_put partition_match_caches_open)
  have 6: "\<forall>n q. partition_match n (settle h) q = partition_match n st q"
    if "status networkResponse \<noteq> 200 \<or> \<not> put_accepts rq networkResponse"
    using that by (auto simp: h settle_def partition_match_caches_open)
  from 1 2 3 4 5 6 show ?thesis by blast
qed

theorem network_success_caches_only_200_witness:
  "settled (networkFirstStrategy not_found static_cached (GET index_html))
     = Fulfilled \<lparr>status = 404, statusText = ''Not Found'', headers = [], body = []\<rparr>
   \<and> detached (networkFirstStrategy not_found static_cached (GET index_html)) = []
   \<and> partition_match RUNTIME_CACHE
        (settle (networkFirstStrategy not_found static_cached (GET index_html)))
        (GET index_html) = None
   \<and> settled (networkFirstStrategy online static_cached (GET index_html))
       = Fulfilled (page index_html)
   \<and> detached (networkFirstStrategy online static_cached (GET index_html))
       = [(RUNTIME_CACHE, GET index_html, page index_html)]
   \<and> partition_match RUNTIME_CACHE
        (settle (networkFirstStrategy online static_cached (GET index_html)))
        (GET index_html) = Some (page index_html)"
proof -
  let ?missing = "\<lparr>status = 404, statusText = ''Not Found'', headers = [], body = []\<rparr>"
  have b: "not_found (GET index_html) = Inr ?missing"
    by (simp add: not_found_def)
  have d: "online (GET index_html) = Inr (page index_html)"
    by (simp add: online_def GET_def)
  have e: "status (page index_html) = 200" "status ?missing \<noteq> 200"
    by (simp_all add: page_def)
  show ?thesis
    using
      network_success_caches_only_200
        [OF index_html_intercepted [of not_found static_cached] b]
      network_success_caches_only_200
        [OF index_html_intercepted [of online static_cached] d]
      e page_is_stored(2) [of index_html] example_matches(2)
    by simp
qed

text \<open>
  C3. When the fetch of an intercepted request throws and neither the runtime nor the
  static partition has a match, the response has status 503, status text
  \<open>Service Unavailable\<close>, the single header \<open>Content-Type: application/json\<close>, and as
  body the JSON object with the members \<open>error\<close>, equal to
  \<open>Offline and resource not cached\<close>, and \<open>message\<close>, the Hebrew sentence of the
  source, given here by its UTF-8 bytes.
\<close>

theorem exhausted_fallback_synthesizes_503:
  assumes "fetch_listener net st rq = RespondWith h"
    and "net rq = Inl e"
    and "partition_match RUNTIME_CACHE st rq = None"
    and "partition_match CACHE_NAME st rq = None"
  shows "settled h
           = Fulfilled
               \<lparr>status = 503,
                statusText = ''Service Unavailable'',
                headers = [(''Content-Type'', ''application/json'')],
                body = ''{'' @ [CHR 0x22] @ ''error'' @ [CHR 0x22] @ '':'' @ [CHR 0x22]
                         @ ''Offline and resource not cached'' @ [CHR 0x22] @ '','' @ [CHR 0x22]
                         @ ''message'' @ [CHR 0x22] @ '':'' @ [CHR 0x22]
                         @ [CHR 0xD7, CHR 0x94, CHR 0xD7, CHR 0x90, CHR 0xD7, CHR 0xA4, CHR 0xD7, CHR 0x9C,
                            CHR 0xD7, CHR 0x99, CHR 0xD7, CHR 0xA7, CHR 0xD7, CHR 0xA6, CHR 0xD7, CHR 0x99,
                            CHR 0xD7, CHR 0x94, CHR 0x20, CHR 0xD7, CHR 0x96, CHR 0xD7, CHR 0x9E, CHR 0xD7,
                            CHR 0x99, CHR 0xD7, CHR 0xA0, CHR 0xD7, CHR 0x94, CHR 0x20, CHR 0xD7, CHR 0x91,
                            CHR 0xD7, CHR 0x9E, CHR 0xD7, CHR 0xA6, CHR 0xD7, CHR 0x91, CHR 0x20, CHR 0xD7,
                            CHR 0x9C, CHR 0xD7, CHR 0x90, CHR 0x20, CHR 0xD7, CHR 0x9E, CHR 0xD7, CHR 0xA7,
                            CHR 0xD7, CHR 0x95, CHR 0xD7, CHR 0x95, CHR 0xD7, CHR 0x9F, CHR 0x2C, CHR 0x20,
                            CHR 0xD7, CHR 0x90, CHR 0xD7, CHR 0x9A, CHR 0x20, CHR 0xD7, CHR 0x94, CHR 0xD7,
                            CHR 0x9E, CHR 0xD7, CHR 0xA9, CHR 0xD7, CHR 0x90, CHR 0xD7, CHR 0x91, CHR 0x20,
                            CHR 0xD7, CHR 0x94, CHR 0xD7, CHR 0x9E, CHR 0xD7, CHR 0x91, CHR 0xD7, CHR 0x95,
                            CHR 0xD7, CHR 0xA7, CHR 0xD7, CHR 0xA9, CHR 0x20, CHR 0xD7, CHR 0x9C, CHR 0xD7,
                            CHR 0x90, CHR 0x20, CHR 0xD7, CHR 0xA0, CHR 0xD7, CHR 0x9E, CHR 0xD7, CHR 0xA6,
                            CHR 0xD7, CHR 0x90, CHR 0x20, CHR 0xD7, CHR 0x91, CHR 0xD7, CHR 0x9E, CHR 0xD7,
                            CHR 0x98, CHR 0xD7, CHR 0x9E, CHR 0xD7, CHR 0x95, CHR 0xD7, CHR 0x9F]
                         @ [CHR 0x22] @ ''}''\<rparr>"
proof -
  from assms(1) have h: "h = networkFirstStrategy net st rq"
    by (simp add: intercepted_iff)
  show ?thesis
    unfolding h offline_response_fields [symmetric]
    using assms(2-4) strategy_network_failure [of net rq e st] by simp
qed

theorem exhausted_fallback_synthesizes_503_witness:
  "fetch_listener offline static_cached (GET ''https://example.com/unknown.json'')
     = RespondWith
         (networkFirstStrategy offline static_cached (GET ''https://example.com/unknown.json''))
   \<and> settled (networkFirstStrategy offline static_cached
                  (GET ''https://example.com/unknown.json''))
       = Fulfilled
           \<lparr>status = 503,
            statusText = ''Service Unavailable'',
            headers = [(''Content-Type'', ''application/json'')],
            body = ''{'' @ [CHR 0x22] @ ''error'' @ [CHR 0x22] @ '':'' @ [CHR 0x22]
                     @ ''Offline and resource not cached'' @ [CHR 0x22] @ '','' @ [CHR 0x22]
                     @ ''message'' @ [CHR 0x22] @ '':'' @ [CHR 0x22]
                     @ [CHR 0xD7, CHR 0x94, CHR 0xD7, CHR 0x90, CHR 0xD7, CHR 0xA4, CHR 0xD7, CHR 0x9C,
                        CHR 0xD7, CHR 0x99, CHR 0xD7, CHR 0xA7, CHR 0xD7, CHR 0xA6, CHR 0xD7, CHR 0x99,
                        CHR 0xD7, CHR 0x94, CHR 0x20, CHR 0xD7, CHR 0x96, CHR 0xD7, CHR 0x9E, CHR 0xD7,
                        CHR 0x99, CHR 0xD7, CHR 0xA0, CHR 0xD7, CHR 0x94, CHR 0x20, CHR 0xD7, CHR 0x91,
                        CHR 0xD7, CHR 0x9E, CHR 0xD7, CHR 0xA6, CHR 0xD7, CHR 0x91, CHR 0x20, CHR 0xD7,
                        CHR 0x9C, CHR 0xD7, CHR 0x90, CHR 0x20, CHR 0xD7, CHR 0x9E, CHR 0xD7, CHR 0xA7,
                        CHR 0xD7, CHR 0x95, CHR 0xD7, CHR 0x95, CHR 0xD7, CHR 0x9F, CHR 0x2C, CHR 0x20,
                        CHR 0xD7, CHR 0x90, CHR 0xD7, CHR 0x9A, CHR 0x20, CHR 0xD7, CHR 0x94, CHR 0xD7,
                        CHR 0x9E, CHR 0xD7, CHR 0xA9, CHR 0xD7, CHR 0x90, CHR 0xD7, CHR 0x91, CHR 0x20,
                        CHR 0xD7, CHR 0x94, CHR 0xD7, CHR 0x9E, CHR 0xD7, CHR 0x91, CHR 0xD7, CHR 0x95,
                        CHR 0xD7, CHR 0xA7, CHR 0xD7, CHR 0xA9, CHR 0x20, CHR 0xD7, CHR 0x9C, CHR 0xD7,
                        CHR 0x90, CHR 0x20, CHR 0xD7, CHR 0xA0, CHR 0xD7, CHR 0x9E, CHR 0xD7, CHR 0xA6,
                        CHR 0xD7, CHR 0x90, CHR 0x20, CHR 0xD7, CHR 0x91, CHR 0xD7, CHR 0x9E, CHR 0xD7,
                        CHR 0x98, CHR 0xD7, CHR 0x9E, CHR 0xD7, CHR 0x95, CHR 0xD7, CHR 0x9F]
                     @ [CHR 0x22] @ ''}''\<rparr>"
proof -
  have down: "offline (GET ''https://example.com/unknown.json'') = Inl NetworkError"
    by (simp add: offline_def)
  from exhausted_fallback_synthesizes_503
    [OF unknown_json_intercepted [of offline static_cached] down example_matches(4,5)]
    unknown_json_intercepted [of offline static_cached]
  show ?thesis
    by simp
qed







text \<open>
  The listener leaves alone every request that is not a GET and every request whose
  protocol does not begin with \<open>http\<close>: it returns before any cache is opened.
\<close>

lemma not_intercepted:
  assumes "method rq \<noteq> ''GET'' \<or> \<not> startsWith (URL_protocol (url rq)) ''http''"
  shows "fetch_listener net st rq = PassThrough"
  using assms by (auto simp: fetch_listener_def)

text \<open>
  C4. The test on the protocol is a prefix test, so it lets through to the strategy a GET
  request whose scheme merely begins with \<open>http\<close>. For \<open>httpx://example.com/a\<close>, with
  the network down and an empty cache storage, the listener answers the request itself,
  with the synthesized 503 response, and creates both partitions on the way.
\<close>

theorem lookalike_scheme_is_intercepted:
  "URL_protocol ''httpx://example.com/a'' = ''httpx:''
   \<and> fetch_listener offline [] (GET ''httpx://example.com/a'')
       = RespondWith \<lparr>settled = Fulfilled offline_response,
                       store = [(RUNTIME_CACHE, []), (CACHE_NAME, [])],
                       detached = [], calls = []\<rparr>"
proof -
  have p: "URL_protocol ''httpx://example.com/a'' = ''httpx:''"
    by (simp add: URL_protocol_def)
  have s: "networkFirstStrategy offline [] (GET ''httpx://example.com/a'')
             = \<lparr>settled = Fulfilled offline_response,
                store = [(RUNTIME_CACHE, []), (CACHE_NAME, [])],
                detached = [], calls = []\<rparr>"
    by (simp add: networkFirstStrategy_def offline_def caches_open_def caches_keys_def
          cache_of_def cache_match_def Let_def CACHE_NAME_def RUNTIME_CACHE_def)
  show ?thesis
    using p s by (simp add: fetch_listener_def GET_def startsWith_def)
qed

subsection \<open>message\<close>

text \<open>
  C7. A message of type \<open>CLEAR_CACHE\<close> leaves no cache partition, whatever the names of
  those that existed, and a second \<open>CLEAR_CACHE\<close> right after it ends in the same state
  as the first.
\<close>

theorem clear_cache_deletes_every_partition:
  "store (message_listener st (Some \<lparr>type = Some ''CLEAR_CACHE''\<rparr>)) = []
   \<and> store (message_listener
              (store (message_listener st (Some \<lparr>type = Some ''CLEAR_CACHE''\<rparr>)))
              (Some \<lparr>type = Some ''CLEAR_CACHE''\<rparr>))
       = store (message_listener st (Some \<lparr>type = Some ''CLEAR_CACHE''\<rparr>))"
proof -
  have once: "store (message_listener s (Some \<lparr>type = Some ''CLEAR_CACHE''\<rparr>)) = []" for s
    by (simp add: message_listener_def fold_caches_delete caches_keys_def)
  show ?thesis
    by (simp only: once simp_thms)
qed

subsection \<open>push and notificationclick\<close>

text \<open>
  C9 does not hold as specified: the handler parses the payload with an unguarded
  \<open>event.data.json()\<close>. A payload that is not JSON makes it throw a \<open>SyntaxError\<close>, and
  the JSON text \<open>null\<close> makes the read of \<open>data.title\<close> throw a \<open>TypeError\<close>; in both
  cases no notification is shown.
\<close>

theorem push_with_unreadable_payload_shows_nothing:
  "push_listener (Some NotJSON) = Inl SyntaxError
   \<and> push_listener (Some JSONNull) = Inl TypeError"
  by (simp add: push_listener_def)

text \<open>
  C9, amended. A push event with no payload, or with a payload that is JSON and not
  \<open>null\<close> (its title, body, icon and url being strings where present), shows one
  notification: its title is the one the payload carries, or
  \<open>Memory Match\<close>; its body and icon are those the payload carries or the defaults, never
  empty; it vibrates 200, 100, 200; and its actions are \<open>open\<close> and \<open>close\<close>, in that
  order. A click on that notification with the action \<open>open\<close>, or with none, closes it
  and opens a window at the URL the payload carried, or at \<open>./\<close> when it carried none.
\<close>

theorem push_notification_and_open_click:
  assumes "event_data \<noteq> Some NotJSON" and "event_data \<noteq> Some JSONNull"
  shows "\<exists>options.
     push_listener event_data
       = Inr [ShowNotification
                (case carried data_title event_data of Some t \<Rightarrow> t | None \<Rightarrow> ''Memory Match'')
                options]
     \<and> body_text options
         = (case carried data_body event_data of Some b \<Rightarrow> b | None \<Rightarrow> DEFAULT_BODY)
     \<and> body_text options \<noteq> []
     \<and> icon options
         = (case carried data_icon event_data of Some i \<Rightarrow> i | None \<Rightarrow> ''./icon-192.png'')
     \<and> icon options \<noteq> []
     \<and> vibrate options = [200, 100, 200]
     \<and> map action (actions options) = [''open'', ''close'']
     \<and> (\<forall>a. a = Some ''open'' \<or> \<not> js_truthy a \<longrightarrow>
            notificationclick_listener \<lparr>event_action = a, notification = options\<rparr>
              = [NotificationClose,
                 OpenWindow (case carried data_url event_data of
                               Some u \<Rightarrow> u | None \<Rightarrow> ''./'')])"
proof -
  let ?none = "\<lparr>data_title = None, data_body = None, data_icon = None, data_url = None\<rparr>"
  from assms obtain d where d: "event_data = None \<and> d = ?none \<or> event_data = Some (JSONValue d)"
    by (cases event_data) (auto intro: push_message_data.exhaust)
  have shown: "push_listener event_data
      = Inr [ShowNotification (js_or (data_title d) ''Memory Match'')
               \<lparr>body_text = js_or (data_body d) DEFAULT_BODY,
                icon = js_or (data_icon d) ''./icon-192.png'',
                badge = ''./icon-192.png'',
                vibrate = [200, 100, 200],
                data = Some (js_or (data_url d) ''./''),
                actions = [\<lparr>action = ''open'', title = OPEN_TITLE\<rparr>,
                           \<lparr>action = ''close'', title = CLOSE_TITLE\<rparr>]\<rparr>]"
    using d by (auto simp: push_listener_def)
  have or_carried: "js_or (field d) x = (case carried field event_data of Some s \<Rightarrow> s | None \<Rightarrow> x)"
    if "field ?none = None" for field x
    using that d by (auto simp: js_or_def carried_def split: option.splits)
  have nonempty: "(case carried field event_data of Some s \<Rightarrow> s | None \<Rightarrow> x) \<noteq> []"
    if "x \<noteq> []" for field x
    using that by (simp add: carried_def split: option.splits push_message_data.splits)
  have again: "js_or (Some s) ''./'' = s" if "s \<noteq> []" for s
    using that by (simp add: js_or_def)
  have target: "(case carried data_url event_data of Some u \<Rightarrow> u | None \<Rightarrow> ''./'') \<noteq> []"
    by (rule nonempty) simp
  have body_default: "DEFAULT_BODY \<noteq> []"
    by (simp add: DEFAULT_BODY_def)
  show ?thesis
    by (simp add: shown or_carried notificationclick_listener_def again [OF target] nonempty
          body_default)
qed

theorem push_notification_and_open_click_witness:
  "\<exists>options.
     push_listener (Some (JSONValue resume_push)) = Inr [ShowNotification ''Your turn'' options]
     \<and> body_text options = DEFAULT_BODY
     \<and> icon options = ''./icon-192.png''
     \<and> notificationclick_listener \<lparr>event_action = Some ''open'', notification = options\<rparr>
         = [NotificationClose, OpenWindow ''./?resume=1'']
     \<and> notificationclick_listener \<lparr>event_action = None, notification = options\<rparr>
         = [NotificationClose, OpenWindow ''./?resume=1'']"
proof -
  have c: "carried data_title (Some (JSONValue resume_push)) = Some ''Your turn''"
    "carried data_body (Some (JSONValue resume_push)) = None"
    "carried data_icon (Some (JSONValue resume_push)) = None"
    "carried data_url (Some (JSONValue resume_push)) = Some ''./?resume=1''"
    by (simp_all add: carried_def resume_push_def)
  have t: "\<not> js_truthy None"
    by (simp add: js_truthy_def)
  have json: "Some (JSONValue resume_push) \<noteq> Some NotJSON"
    "Some (JSONValue resume_push) \<noteq> Some JSONNull"
    by simp_all
  from push_notification_and_open_click [OF json]
  obtain options where
    o: "push_listener (Some (JSONValue resume_push)) = Inr [ShowNotification ''Your turn'' options]"
      "body_text options = DEFAULT_BODY"
      "icon options = ''./icon-192.png''"
      "\<forall>a. a = Some ''open'' \<or> \<not> js_truthy a \<longrightarrow>
            notificationclick_listener \<lparr>event_action = a, notification = options\<rparr>
              = [NotificationClose, OpenWindow ''./?resume=1'']"
    unfolding c by auto
  from o(4) t have
    "notificationclick_listener \<lparr>event_action = Some ''open'', notification = options\<rparr>
       = [NotificationClose, OpenWindow ''./?resume=1'']"
    "notificationclick_listener \<lparr>event_action = None, notification = options\<rparr>
       = [NotificationClose, OpenWindow ''./?resume=1'']"
    by blast+
  with o(1-3) show ?thesis by blast
qed

text \<open>
  C10. The first thing a click does, whatever the action, is to close the notification.
  A window is opened after that when the action is \<open>open\<close> or there is none; with any
  other action, \<open>close\<close> or one the worker does not know, closing the notification is
  all that happens.
\<close>

theorem click_closes_then_opens_only_on_open:
  "hd (notificationclick_listener event) = NotificationClose
   \<and> (event_action event = Some ''open'' \<or> \<not> js_truthy (event_action event) \<longrightarrow>
        notificationclick_listener event
          = [NotificationClose, OpenWindow (js_or (data (notification event)) ''./'')])
   \<and> (event_action event \<noteq> Some ''open'' \<and> js_truthy (event_action event) \<longrightarrow>
        notificationclick_listener event = [NotificationClose])"
  by (simp add: notificationclick_listener_def)

theorem click_closes_then_opens_only_on_open_witness:
  "notificationclick_listener
     \<lparr>event_action = Some ''close'',
      notification = \<lparr>body_text = [], icon = [], badge = [], vibrate = [],
                      data = Some index_html, actions = []\<rparr>\<rparr>
     = [NotificationClose]
   \<and> notificationclick_listener
       \<lparr>event_action = Some ''later'',
        notification = \<lparr>body_text = [], icon = [], badge = [], vibrate = [],
                        data = Some index_html, actions = []\<rparr>\<rparr>
     = [NotificationClose]
   \<and> notificationclick_listener
       \<lparr>event_action = None,
        notification = \<lparr>body_text = [], icon = [], badge = [], vibrate = [],
                        data = Some index_html, actions = []\<rparr>\<rparr>
     = [NotificationClose, OpenWindow index_html]"
  using
    click_closes_then_opens_only_on_open
      [of "\<lparr>event_action = Some ''close'',
           notification = \<lparr>body_text = [], icon = [], badge = [], vibrate = [],
                           data = Some index_html, actions = []\<rparr>\<rparr>"]
    click_closes_then_opens_only_on_open
      [of "\<lparr>event_action = Some ''later'',
           notification = \<lparr>body_text = [], icon = [], badge = [], vibrate = [],
                           data = Some index_html, actions = []\<rparr>\<rparr>"]
    click_closes_then_opens_only_on_open
      [of "\<lparr>event_action = None,
           notification = \<lparr>body_text = [], icon = [], badge = [], vibrate = [],
                           data = Some index_html, actions = []\<rparr>\<rparr>"]
  by (simp add: js_truthy_def js_or_def index_html_def)


end
